theory Spec2Isabelle
  imports Complex_Main "HOL-Library.Sublist"
begin

section \<open>JavaScript values of a request body\<close>

text \<open>
  A JavaScript number. The finite ones are given by their mathematical value: the handlers
  only compare numbers with the constants 0, 500 and 1000 and test them for integrality,
  which is exact on doubles, and every double is a rational. Negative zero is the rational
  0 (the handlers cannot tell them apart: both are falsy, both are integers, both are
  \<open>\<le> 0\<close>). \<open>1e999\<close> in a JSON body parses to \<open>Infinity\<close>; \<open>NaN\<close> only arises
  from a conversion.
\<close>

datatype jsnum = NaN | NegInf | Fin rat | PosInf

text \<open>
  A field of the parsed JSON body (\<open>express.json()\<close>) holding a JSON scalar. A field that
  is missing (\<open>undefined\<close> after destructuring) is \<open>None\<close> of \<open>jsval option\<close>.
  Array and object values are outside this model.
\<close>

datatype jsval = Null | Bool bool | Num jsnum | Str string

text \<open>The relational operators \<open><\<close> and \<open>\<le>\<close> on numbers: every comparison with \<open>NaN\<close> is false.\<close>

fun js_lt :: "jsnum \<Rightarrow> jsnum \<Rightarrow> bool" where
  "js_lt NaN b = False"
| "js_lt a NaN = False"
| "js_lt (Fin a) (Fin b) = (a < b)"
| "js_lt a NegInf = False"
| "js_lt NegInf b = True"
| "js_lt PosInf b = False"
| "js_lt a PosInf = True"

definition js_gt :: "jsnum \<Rightarrow> jsnum \<Rightarrow> bool" where
  "js_gt a b = js_lt b a"

definition js_le :: "jsnum \<Rightarrow> jsnum \<Rightarrow> bool" where
  "js_le a b = (a \<noteq> NaN \<and> b \<noteq> NaN \<and> \<not> js_lt b a)"

text \<open>\<open>ToBoolean\<close>: what \<open>!v\<close>, \<open>v && e\<close> and \<open>v || e\<close> test.\<close>

fun truthy :: "jsval option \<Rightarrow> bool" where
  "truthy None = False"
| "truthy (Some Null) = False"
| "truthy (Some (Bool b)) = b"
| "truthy (Some (Num NaN)) = False"
| "truthy (Some (Num (Fin r))) = (r \<noteq> 0)"
| "truthy (Some (Num n)) = True"
| "truthy (Some (Str s)) = (s \<noteq> [])"

text \<open>\<open>Number.isInteger(v)\<close>: \<open>v\<close> is a number, finite, with no fractional part.\<close>

definition is_int :: "rat \<Rightarrow> bool" where
  "is_int r = (of_int \<lfloor>r\<rfloor> = r)"

fun isInteger :: "jsval option \<Rightarrow> bool" where
  "isInteger (Some (Num (Fin r))) = is_int r"
| "isInteger v = False"

text \<open>
  \<open>Number.MAX_SAFE_INTEGER\<close>: every integer up to it in absolute value is a JavaScript
  number.
\<close>

definition MAX_SAFE_INTEGER :: int where
  "MAX_SAFE_INTEGER = 2 ^ 53 - 1"

subsection \<open>Decimal strings\<close>

definition digit :: "nat \<Rightarrow> char" where
  "digit d = ''0123456789'' ! d"

fun dec_string :: "nat \<Rightarrow> string" where
  "dec_string n = (if n < 10 then [digit n] else dec_string (n div 10) @ [digit (n mod 10)])"

declare dec_string.simps [simp del]

definition int_string :: "int \<Rightarrow> string" where
  "int_string i = (if i < 0 then CHR ''-'' # dec_string (nat (- i)) else dec_string (nat i))"

section \<open>The collaborators of a request\<close>

text \<open>
  What one request takes from outside the repository: the identity service
  (\<open>admin.auth().verifyIdToken\<close>, which yields the decoded token's \<open>uid\<close> or throws,
  \<open>None\<close>), the clock (\<open>new Date()\<close>, read through \<open>getUTCFullYear\<close>, \<open>getUTCMonth\<close>,
  which counts from 0, and \<open>getUTCDate\<close>), the time the store stamps on a commit, the
  store's floating-point sum of two finite numbers that are not both integers, and the
  two conversions of the language runtime that the handlers reach on values other than
  integers: \<open>StringToNumber\<close>, and \<open>Number::toString\<close> on a finite number that is not an
  integer below \<open>10^21\<close>.
\<close>

record env =
  verifyIdToken :: "string \<Rightarrow> string option"
  utcFullYear :: nat
  utcMonth :: nat
  utcDate :: nat
  commitTime :: nat
  DoubleAdd :: "rat \<Rightarrow> rat \<Rightarrow> jsnum"
  StringToNumber :: "string \<Rightarrow> jsnum"
  NumberToString :: "jsnum \<Rightarrow> string"

text \<open>\<open>ToNumber\<close>, as \<open>isNaN(v)\<close> and the relational operators apply it to an operand.\<close>

fun ToNumber :: "env \<Rightarrow> jsval option \<Rightarrow> jsnum" where
  "ToNumber e None = NaN"
| "ToNumber e (Some Null) = Fin 0"
| "ToNumber e (Some (Bool b)) = (if b then Fin 1 else Fin 0)"
| "ToNumber e (Some (Num n)) = n"
| "ToNumber e (Some (Str s)) = StringToNumber e s"

definition isNaN :: "env \<Rightarrow> jsval option \<Rightarrow> bool" where
  "isNaN e v = (ToNumber e v = NaN)"

text \<open>
  \<open>ToString\<close>, as a template literal applies it. An integer below \<open>10^21\<close> in absolute
  value prints in decimal; the other finite numbers print as the runtime prints them.
\<close>

fun ToString :: "env \<Rightarrow> jsval option \<Rightarrow> string" where
  "ToString e None = ''undefined''"
| "ToString e (Some Null) = ''null''"
| "ToString e (Some (Bool b)) = (if b then ''true'' else ''false'')"
| "ToString e (Some (Num NaN)) = ''NaN''"
| "ToString e (Some (Num NegInf)) = ''-Infinity''"
| "ToString e (Some (Num PosInf)) = ''Infinity''"
| "ToString e (Some (Num (Fin r))) =
     (if is_int r \<and> \<bar>r\<bar> < 10 ^ 21 then int_string \<lfloor>r\<rfloor> else NumberToString e (Fin r))"
| "ToString e (Some (Str s)) = s"

text \<open>\<open>a || b\<close> on values.\<close>

definition js_or :: "jsval option \<Rightarrow> jsval \<Rightarrow> jsval" where
  "js_or a b = (case a of None \<Rightarrow> b | Some v \<Rightarrow> if truthy a then v else b)"

text \<open>
  \<open>s.split(sep)\<close> for a non-empty separator: the pieces of \<open>s\<close> between the occurrences
  of \<open>sep\<close>, found from the left.
\<close>

fun split_from :: "string \<Rightarrow> string \<Rightarrow> string \<Rightarrow> string list" where
  "split_from sep piece [] = [piece]"
| "split_from sep piece (c # cs) =
     (if sep \<noteq> [] \<and> prefix sep (c # cs)
      then piece # split_from sep [] (drop (length sep - 1) cs)
      else split_from sep (piece @ [c]) cs)"

definition split :: "string \<Rightarrow> string \<Rightarrow> string list" where
  "split sep s = split_from sep [] s"

section \<open>The document store\<close>

text \<open>
  The store is the external collaborator of the handlers; this is the part of its contract
  they use. A stored field holds a value written from JavaScript or a timestamp assigned
  by the server. A document is a map from field names to values. The collection
  \<open>users\<close> maps a uid to its document; \<open>users/{uid}/activities\<close> is kept in the order
  of creation, since \<open>doc()\<close> with no argument names a document that does not exist yet.
\<close>

datatype fvalue = Plain jsval | Timestamp nat

type_synonym document = "string \<rightharpoonup> fvalue"

record store =
  users :: "string \<rightharpoonup> document"
  activities :: "string \<Rightarrow> document list"

text \<open>
  The sum the store computes for \<open>FieldValue.increment\<close>. Two integers are added as
  integers, exactly (the store keeps them in 64 bits; that bound, and an integer-valued
  double beyond \<open>2^53\<close> left by a writer other than these handlers, are outside this
  model). Any other two finite numbers are added as doubles, with the rounding of the
  store: that sum is taken from the environment. The sums with \<open>NaN\<close> and the infinities
  are those of IEEE arithmetic.
\<close>

fun store_add :: "env \<Rightarrow> jsnum \<Rightarrow> jsnum \<Rightarrow> jsnum" where
  "store_add e NaN b = NaN"
| "store_add e a NaN = NaN"
| "store_add e (Fin a) (Fin b) = (if is_int a \<and> is_int b then Fin (a + b) else DoubleAdd e a b)"
| "store_add e PosInf NegInf = NaN"
| "store_add e NegInf PosInf = NaN"
| "store_add e PosInf b = PosInf"
| "store_add e NegInf b = NegInf"
| "store_add e a PosInf = PosInf"
| "store_add e a NegInf = NegInf"

text \<open>
  What a write puts in a field: a value, \<open>FieldValue.increment(n)\<close> or
  \<open>FieldValue.serverTimestamp()\<close>. The increment adds \<open>n\<close> to a field that holds a
  number and sets a field that is missing or holds anything else to \<open>n\<close>.
\<close>

datatype field_write = Literal jsval | Increment jsnum | ServerTimestamp

fun field_value :: "env \<Rightarrow> fvalue option \<Rightarrow> field_write \<Rightarrow> fvalue" where
  "field_value e cur (Literal v) = Plain v"
| "field_value e cur (Increment n) =
     (case cur of Some (Plain (Num x)) \<Rightarrow> Plain (Num (store_add e x n)) | _ \<Rightarrow> Plain (Num n))"
| "field_value e cur ServerTimestamp = Timestamp (commitTime e)"

fun merge_fields :: "env \<Rightarrow> (string \<times> field_write) list \<Rightarrow> document \<Rightarrow> document" where
  "merge_fields e [] d = d"
| "merge_fields e ((k, fw) # fs) d = merge_fields e fs (d(k \<mapsto> field_value e (d k) fw))"

text \<open>
  The writes of a transaction: \<open>tx.set(ref, data)\<close>, with \<open>{merge: true}\<close> or without, and
  \<open>tx.update(ref, data)\<close>, which fails on a document that does not exist. A write that
  fails fails the commit, and a failed commit leaves the store as it was.
\<close>

datatype docref = UserDoc string | NewActivity string

datatype "write" = TxSet docref "(string \<times> field_write) list" bool
  | TxUpdate docref "(string \<times> field_write) list"

fun apply_write :: "env \<Rightarrow> write \<Rightarrow> store \<Rightarrow> store option" where
  "apply_write e (TxSet (UserDoc u) fs merge) st =
     Some (st\<lparr>users := (users st)(u \<mapsto> merge_fields e fs
       (if merge then (case users st u of None \<Rightarrow> Map.empty | Some d \<Rightarrow> d) else Map.empty))\<rparr>)"
| "apply_write e (TxSet (NewActivity u) fs merge) st =
     Some (st\<lparr>activities := (activities st)(u := activities st u @ [merge_fields e fs Map.empty])\<rparr>)"
| "apply_write e (TxUpdate (UserDoc u) fs) st =
     (case users st u of None \<Rightarrow> None
      | Some d \<Rightarrow> Some (st\<lparr>users := (users st)(u \<mapsto> merge_fields e fs d)\<rparr>))"
| "apply_write e (TxUpdate (NewActivity u) fs) st = None"

fun commit :: "env \<Rightarrow> write list \<Rightarrow> store \<Rightarrow> store option" where
  "commit e [] st = Some st"
| "commit e (w # ws) st =
     (case apply_write e w st of None \<Rightarrow> None | Some st' \<Rightarrow> commit e ws st')"

section \<open>Requests, responses and the course of a handler\<close>

text \<open>
  The request: the \<open>Authorization\<close> header and the four fields the handlers read from the
  body (\<open>req.body || {}\<close> leaves all of them undefined when there is no body).
\<close>

record request =
  authorization :: "string option"
  userId :: "jsval option"
  points :: "jsval option"
  level :: "jsval option"
  totalScore :: "jsval option"

text \<open>
  A response body is \<open>{ok: false, error}\<close> or \<open>{ok: true, added, points}\<close>. The world of a
  request is the store, every \<open>res.status(code).json(body)\<close> made so far, in order, and
  every \<open>db.runTransaction\<close> made so far with how it ended. The first response is what
  the client receives; Express throws on any later one, since the headers are sent by
  then, and the call is recorded all the same.
\<close>

datatype body = Failure string | Success "jsval option" fvalue

datatype exn = HeadersSent | TransactionFailed

datatype tx_end = Committed "write list" | Aborted

record world =
  db :: store
  replies :: "(nat \<times> body) list"
  transactions :: "tx_end list"

type_synonym 'a io = "world \<Rightarrow> (exn + 'a) \<times> world"

text \<open>The world in which Express calls a handler: nothing sent, no transaction run.\<close>

definition fresh :: "store \<Rightarrow> world" where
  "fresh st = \<lparr>db = st, replies = [], transactions = []\<rparr>"

definition json :: "nat \<Rightarrow> body \<Rightarrow> unit io" where
  "json code b w =
     (if replies w = [] then Inr () else Inl HeadersSent, w\<lparr>replies := replies w @ [(code, b)]\<rparr>)"

definition returns :: "'a \<Rightarrow> 'a io" where
  "returns x w = (Inr x, w)"

definition and_then :: "'a io \<Rightarrow> ('a \<Rightarrow> 'b io) \<Rightarrow> 'b io" where
  "and_then m f w = (case m w of (Inl x, w') \<Rightarrow> (Inl x, w') | (Inr a, w') \<Rightarrow> f a w')"

text \<open>The \<open>try { ... } catch (err) { return res.status(500).json(...) }\<close> around each handler.\<close>

definition catch_server_error :: "unit io \<Rightarrow> unit io" where
  "catch_server_error m w =
     (case m w of (Inl x, w') \<Rightarrow> json 500 (Failure ''server_error'') w' | (Inr a, w') \<Rightarrow> (Inr a, w'))"

text \<open>
  \<open>db.runTransaction(update)\<close> with no other request in flight: the update function runs
  once on the current store and the writes it queued are committed together. An
  exception of the update function, or a failed commit, rejects and writes nothing.
\<close>

definition runTransaction :: "env \<Rightarrow> write list io \<Rightarrow> unit io" where
  "runTransaction e update w =
     (case update w of
        (Inl x, w') \<Rightarrow> (Inl x, w'\<lparr>transactions := transactions w' @ [Aborted]\<rparr>)
      | (Inr ws, w') \<Rightarrow>
          (case commit e ws (db w') of
             None \<Rightarrow> (Inl TransactionFailed, w'\<lparr>transactions := transactions w' @ [Aborted]\<rparr>)
           | Some st \<Rightarrow>
               (Inr (), w'\<lparr>db := st, transactions := transactions w' @ [Committed ws]\<rparr>)))"

text \<open>\<open>fresh.exists ? (fresh.data().points || 0) : 0\<close> after \<open>userRef.get()\<close>.\<close>

fun stored_truthy :: "fvalue \<Rightarrow> bool" where
  "stored_truthy (Plain v) = truthy (Some v)"
| "stored_truthy (Timestamp t) = True"

definition newPoints :: "string \<Rightarrow> store \<Rightarrow> fvalue" where
  "newPoints uid st =
     (case users st uid of
        None \<Rightarrow> Plain (Num (Fin 0))
      | Some d \<Rightarrow>
          (case d ''points'' of
             None \<Rightarrow> Plain (Num (Fin 0))
           | Some v \<Rightarrow> if stored_truthy v then v else Plain (Num (Fin 0))))"

definition refetch :: "string \<Rightarrow> fvalue io" where
  "refetch uid w = (Inr (newPoints uid (db w)), w)"

section \<open>The handlers\<close>

definition verifyIdTokenFromReq :: "env \<Rightarrow> request \<Rightarrow> string option io" where
  "verifyIdTokenFromReq e req =
     (let auth = (case authorization req of None \<Rightarrow> [] | Some a \<Rightarrow> a) in
      if \<not> prefix ''Bearer '' auth then
        and_then (json 401 (Failure ''Missing or invalid Authorization header'')) (\<lambda>_. returns None)
      else
        (case (case split ''Bearer '' auth of p # idToken # ps \<Rightarrow> verifyIdToken e idToken
                                             | _ \<Rightarrow> None) of
           Some uid \<Rightarrow> returns (Some uid)
         | None \<Rightarrow> and_then (json 401 (Failure ''Invalid ID token'')) (\<lambda>_. returns None)))"

definition dayKey :: "env \<Rightarrow> string" where
  "dayKey e = dec_string (utcFullYear e) @ ''-'' @ dec_string (utcMonth e + 1) @ ''-''
     @ dec_string (utcDate e)"

text \<open>The update function that \<open>applyAdReward\<close> passes to \<open>runTransaction\<close>.\<close>

definition adRewardUpdate :: "env \<Rightarrow> string \<Rightarrow> write list io" where
  "adRewardUpdate e uid w =
     (let data = (case users (db w) uid of None \<Rightarrow> Map.empty | Some d \<Rightarrow> d) in
      if data ''lastAdShown'' = Some (Plain (Str (dayKey e))) then
        and_then (json 200 (Failure ''Already claimed today'')) (\<lambda>_. returns []) w
      else
        returns [TxSet (UserDoc uid)
                [(''points'', Increment (Fin 100)), (''lastAdShown'', Literal (Str (dayKey e)))] True,
              TxSet (NewActivity uid)
                [(''text'', Literal (Str ''Watched daily ad +100 pts (server)'')),
                 (''time'', ServerTimestamp)] False] w)"

definition applyAdReward :: "env \<Rightarrow> request \<Rightarrow> unit io" where
  "applyAdReward e req = catch_server_error
     (and_then (verifyIdTokenFromReq e req) (\<lambda>decoded.
        case decoded of
          None \<Rightarrow> returns ()
        | Some uid \<Rightarrow>
            if \<not> truthy (userId req) \<or> userId req \<noteq> Some (Str uid) then
              json 400 (Failure ''userId mismatch'')
            else
              and_then (runTransaction e (adRewardUpdate e uid)) (\<lambda>_.
              and_then (refetch uid) (\<lambda>np.
              json 200 (Success (Some (Num (Fin 100))) np)))))"

definition MAX_POINTS_PER_CALL :: rat where
  "MAX_POINTS_PER_CALL = 1000"

definition MAX_LEVEL_ALLOWED :: rat where
  "MAX_LEVEL_ALLOWED = 500"

text \<open>The update function that \<open>awardGamePoints\<close> passes to \<open>runTransaction\<close>.\<close>

definition gamePointsUpdate :: "env \<Rightarrow> request \<Rightarrow> string \<Rightarrow> write list io" where
  "gamePointsUpdate e req uid w =
     returns [if users (db w) uid = None
              then TxSet (UserDoc uid) [(''points'', Increment (ToNumber e (points req)))] True
              else TxUpdate (UserDoc uid) [(''points'', Increment (ToNumber e (points req)))],
              TxSet (NewActivity uid)
                [(''text'', Literal (Str (''Game: +'' @ ToString e (points req) @ '' pts (level ''
                    @ ToString e (Some (js_or (level req) (Str ''?''))) @ '')''))),
                 (''time'', ServerTimestamp),
                 (''totalScore'', Literal (js_or (totalScore req) Null))] True] w"

definition awardGamePoints :: "env \<Rightarrow> request \<Rightarrow> unit io" where
  "awardGamePoints e req = catch_server_error
     (and_then (verifyIdTokenFromReq e req) (\<lambda>decoded.
        case decoded of
          None \<Rightarrow> returns ()
        | Some uid \<Rightarrow>
            if \<not> truthy (userId req) \<or> userId req \<noteq> Some (Str uid) then
              json 400 (Failure ''userId mismatch'')
            else if \<not> isInteger (points req) \<or> js_le (ToNumber e (points req)) (Fin 0) then
              json 400 (Failure ''invalid points'')
            else if js_gt (ToNumber e (points req)) (Fin MAX_POINTS_PER_CALL) then
              json 400 (Failure ''points_too_large'')
            else if truthy (level req) \<and> (isNaN e (level req)
                      \<or> js_lt (ToNumber e (level req)) (Fin 0)
                      \<or> js_gt (ToNumber e (level req)) (Fin MAX_LEVEL_ALLOWED)) then
              json 400 (Failure ''invalid level'')
            else
              and_then (runTransaction e (gamePointsUpdate e req uid)) (\<lambda>_.
              and_then (refetch uid) (\<lambda>np.
              json 200 (Success (points req) np)))))"

section \<open>Reading the balance record\<close>

text \<open>A field of a user's balance record; a record that does not exist has no field.\<close>

definition stored_field :: "store \<Rightarrow> string \<Rightarrow> string \<Rightarrow> fvalue option" where
  "stored_field st uid f = (case users st uid of None \<Rightarrow> None | Some d \<Rightarrow> d f)"

text \<open>
  The point total of a user: 0 when there is no record or no \<open>points\<close> field, the stored
  number when it is finite, and undefined when the field holds anything else.
\<close>

definition point_total :: "store \<Rightarrow> string \<Rightarrow> rat option" where
  "point_total st uid =
     (case stored_field st uid ''points'' of
        None \<Rightarrow> Some 0
      | Some (Plain (Num (Fin t))) \<Rightarrow> Some t
      | Some v \<Rightarrow> None)"

text \<open>The system as a whole: the two handlers, called one after the other on the store.\<close>

datatype call = AdReward env request | GamePoints env request

fun handle :: "call \<Rightarrow> store \<Rightarrow> store" where
  "handle (AdReward e req) st = db (snd (applyAdReward e req (fresh st)))"
| "handle (GamePoints e req) st = db (snd (awardGamePoints e req (fresh st)))"

fun run :: "call list \<Rightarrow> store \<Rightarrow> store" where
  "run [] st = st"
| "run (c # cs) st = run cs (handle c st)"

definition empty_store :: store where
  "empty_store = \<lparr>users = Map.empty, activities = (\<lambda>uid. [])\<rparr>"

section \<open>What the handlers write\<close>

text \<open>
  The store after the two writes of \<open>applyAdReward\<close> and after the two writes of
  \<open>awardGamePoints\<close>, the world a handler leaves when it has awarded, the text of the
  activity that \<open>awardGamePoints\<close> logs, and its guard on \<open>level\<close>, named so that the
  results below can be stated. Each is proved to be what the handler computes.
\<close>

definition ad_store :: "env \<Rightarrow> string \<Rightarrow> store \<Rightarrow> store" where
  "ad_store e uid st =
     (let data = (case users st uid of None \<Rightarrow> Map.empty | Some d \<Rightarrow> d) in
      st\<lparr>users := (users st)(uid \<mapsto> data
             (''points'' \<mapsto> field_value e (data ''points'') (Increment (Fin 100)),
              ''lastAdShown'' \<mapsto> Plain (Str (dayKey e)))),
         activities := (activities st)(uid := activities st uid @
             [[''text'' \<mapsto> Plain (Str ''Watched daily ad +100 pts (server)''),
               ''time'' \<mapsto> Timestamp (commitTime e)]])\<rparr>)"

definition ad_awarded :: "env \<Rightarrow> string \<Rightarrow> store \<Rightarrow> world" where
  "ad_awarded e uid st =
     \<lparr>db = ad_store e uid st,
      replies = [(200, Success (Some (Num (Fin 100))) (newPoints uid (ad_store e uid st)))],
      transactions = [Committed
        [TxSet (UserDoc uid)
           [(''points'', Increment (Fin 100)), (''lastAdShown'', Literal (Str (dayKey e)))] True,
         TxSet (NewActivity uid)
           [(''text'', Literal (Str ''Watched daily ad +100 pts (server)'')),
            (''time'', ServerTimestamp)] False]]\<rparr>"

definition ad_claimed :: "string \<Rightarrow> store \<Rightarrow> world" where
  "ad_claimed uid st =
     \<lparr>db = st,
      replies = [(200, Failure ''Already claimed today''),
                 (200, Success (Some (Num (Fin 100))) (newPoints uid st)),
                 (500, Failure ''server_error'')],
      transactions = [Committed []]\<rparr>"

definition refused :: "store \<Rightarrow> nat \<Rightarrow> string \<Rightarrow> world" where
  "refused st code reason = \<lparr>db = st, replies = [(code, Failure reason)], transactions = []\<rparr>"

definition game_text :: "env \<Rightarrow> request \<Rightarrow> string" where
  "game_text e req = ''Game: +'' @ ToString e (points req) @ '' pts (level ''
     @ ToString e (Some (js_or (level req) (Str ''?''))) @ '')''"

definition game_store :: "env \<Rightarrow> request \<Rightarrow> string \<Rightarrow> store \<Rightarrow> store" where
  "game_store e req uid st =
     (let data = (case users st uid of None \<Rightarrow> Map.empty | Some d \<Rightarrow> d) in
      st\<lparr>users := (users st)(uid \<mapsto> data
             (''points'' \<mapsto> field_value e (data ''points'')
                (Increment (ToNumber e (points req))))),
         activities := (activities st)(uid := activities st uid @
             [[''text'' \<mapsto> Plain (Str (game_text e req)),
               ''time'' \<mapsto> Timestamp (commitTime e),
               ''totalScore'' \<mapsto> Plain (js_or (totalScore req) Null)]])\<rparr>)"

definition game_awarded :: "env \<Rightarrow> request \<Rightarrow> string \<Rightarrow> store \<Rightarrow> world" where
  "game_awarded e req uid st =
     \<lparr>db = game_store e req uid st,
      replies = [(200, Success (points req) (newPoints uid (game_store e req uid st)))],
      transactions = [Committed
        [if users st uid = None
         then TxSet (UserDoc uid) [(''points'', Increment (ToNumber e (points req)))] True
         else TxUpdate (UserDoc uid) [(''points'', Increment (ToNumber e (points req)))],
         TxSet (NewActivity uid)
           [(''text'', Literal (Str (game_text e req))),
            (''time'', ServerTimestamp),
            (''totalScore'', Literal (js_or (totalScore req) Null))] True]]\<rparr>"

definition level_rejected :: "env \<Rightarrow> request \<Rightarrow> bool" where
  "level_rejected e req = (truthy (level req) \<and> (isNaN e (level req)
      \<or> js_lt (ToNumber e (level req)) (Fin 0)
      \<or> js_gt (ToNumber e (level req)) (Fin 500)))"

section \<open>Concrete requests\<close>

text \<open>
  Two users on two days. The requests below never reach a conversion of a string to a
  number or a sum of numbers that are not both integers, and print no number other than
  integers and 2.5.
\<close>

definition test_env :: env where
  "test_env = \<lparr>verifyIdToken = (\<lambda>t. if t = ''tok-alice'' then Some ''alice'' else None),
     utcFullYear = 2024, utcMonth = 0, utcDate = 15, commitTime = 7,
     DoubleAdd = (\<lambda>a b. NaN), StringToNumber = (\<lambda>s. NaN),
     NumberToString = (\<lambda>n. if n = Fin (5 / 2) then ''2.5'' else ''NaN'')\<rparr>"

definition alice_req :: request where
  "alice_req = \<lparr>authorization = Some ''Bearer tok-alice'', userId = Some (Str ''alice''),
     points = None, level = None, totalScore = None\<rparr>"

definition claimed_store :: store where
  "claimed_store = \<lparr>users = [''alice'' \<mapsto>
       [''points'' \<mapsto> Plain (Num (Fin 100)), ''lastAdShown'' \<mapsto> Plain (Str ''2024-1-15''),
        ''name'' \<mapsto> Plain (Str ''Alice'')]],
     activities = (\<lambda>uid. [])\<rparr>"

definition returning_store :: store where
  "returning_store = \<lparr>users = [''alice'' \<mapsto>
       [''points'' \<mapsto> Plain (Num (Fin 100)), ''lastAdShown'' \<mapsto> Plain (Str ''2024-1-14''),
        ''name'' \<mapsto> Plain (Str ''Alice'')]],
     activities = (\<lambda>uid. [])\<rparr>"

definition bob_env :: env where
  "bob_env = \<lparr>verifyIdToken = (\<lambda>t. if t = ''tok-bob'' then Some ''bob'' else None),
     utcFullYear = 2025, utcMonth = 11, utcDate = 31, commitTime = 99,
     DoubleAdd = (\<lambda>a b. NaN), StringToNumber = (\<lambda>s. NaN), NumberToString = (\<lambda>n. ''NaN'')\<rparr>"

definition bob_req :: request where
  "bob_req = \<lparr>authorization = Some ''Bearer tok-bob'', userId = Some (Str ''bob''),
     points = None, level = None, totalScore = None\<rparr>"

definition bob_store :: store where
  "bob_store = \<lparr>users = [''bob'' \<mapsto>
       [''points'' \<mapsto> Plain (Num (Fin 350)), ''lastAdShown'' \<mapsto> Plain (Str ''2025-12-31'')]],
     activities = (\<lambda>uid. [])\<rparr>"

section \<open>The courses of the two handlers\<close>

lemma verify_cases:
  "(\<exists>uid. verifyIdTokenFromReq e req (fresh st) = (Inr (Some uid), fresh st)) \<or>
   (\<exists>msg. verifyIdTokenFromReq e req (fresh st) = (Inr None, refused st 401 msg))"
  by (simp add: verifyIdTokenFromReq_def Let_def and_then_def json_def returns_def fresh_def
      refused_def split: option.splits list.splits)

lemma ad_unverified:
  assumes "verifyIdTokenFromReq e req (fresh st) = (Inr None, w)"
  shows "applyAdReward e req (fresh st) = (Inr (), w)"
  using assms by (simp add: applyAdReward_def catch_server_error_def and_then_def returns_def)

lemma ad_mismatch:
  assumes "verifyIdTokenFromReq e req (fresh st) = (Inr (Some uid), fresh st)"
    and "\<not> truthy (userId req) \<or> userId req \<noteq> Some (Str uid)"
  shows "applyAdReward e req (fresh st) = (Inr (), refused st 400 ''userId mismatch'')"
  using assms
  by (auto simp add: applyAdReward_def catch_server_error_def and_then_def json_def
      fresh_def refused_def)

lemma ad_already_claimed:
  assumes "verifyIdTokenFromReq e req (fresh st) = (Inr (Some uid), fresh st)"
    and "userId req = Some (Str uid)" and "uid \<noteq> []"
    and "stored_field st uid ''lastAdShown'' = Some (Plain (Str (dayKey e)))"
  shows "applyAdReward e req (fresh st) = (Inl HeadersSent, ad_claimed uid st)"
  using assms
  by (auto simp add: applyAdReward_def catch_server_error_def and_then_def json_def
      runTransaction_def adRewardUpdate_def returns_def refetch_def stored_field_def
      fresh_def ad_claimed_def split: option.splits)

lemma ad_award:
  assumes "verifyIdTokenFromReq e req (fresh st) = (Inr (Some uid), fresh st)"
    and "userId req = Some (Str uid)" and "uid \<noteq> []"
    and "stored_field st uid ''lastAdShown'' \<noteq> Some (Plain (Str (dayKey e)))"
  shows "applyAdReward e req (fresh st) = (Inr (), ad_awarded e uid st)"
  using assms
  by (auto simp add: applyAdReward_def catch_server_error_def and_then_def json_def
      runTransaction_def adRewardUpdate_def returns_def refetch_def stored_field_def
      fresh_def ad_store_def ad_awarded_def Let_def split: option.splits)

lemma game_unverified:
  assumes "verifyIdTokenFromReq e req (fresh st) = (Inr None, w)"
  shows "awardGamePoints e req (fresh st) = (Inr (), w)"
  using assms by (simp add: awardGamePoints_def catch_server_error_def and_then_def returns_def)

lemma game_mismatch:
  assumes "verifyIdTokenFromReq e req (fresh st) = (Inr (Some uid), fresh st)"
    and "\<not> truthy (userId req) \<or> userId req \<noteq> Some (Str uid)"
  shows "awardGamePoints e req (fresh st) = (Inr (), refused st 400 ''userId mismatch'')"
  using assms
  by (auto simp add: awardGamePoints_def catch_server_error_def and_then_def json_def
      fresh_def refused_def)

lemma game_invalid_points:
  assumes "verifyIdTokenFromReq e req (fresh st) = (Inr (Some uid), fresh st)"
    and "userId req = Some (Str uid)" and "uid \<noteq> []"
    and "\<not> isInteger (points req) \<or> js_le (ToNumber e (points req)) (Fin 0)"
  shows "awardGamePoints e req (fresh st) = (Inr (), refused st 400 ''invalid points'')"
  using assms
  by (auto simp add: awardGamePoints_def catch_server_error_def and_then_def json_def
      fresh_def refused_def)

lemma game_points_too_large:
  assumes "verifyIdTokenFromReq e req (fresh st) = (Inr (Some uid), fresh st)"
    and "userId req = Some (Str uid)" and "uid \<noteq> []"
    and "isInteger (points req)" and "\<not> js_le (ToNumber e (points req)) (Fin 0)"
    and "js_gt (ToNumber e (points req)) (Fin 1000)"
  shows "awardGamePoints e req (fresh st) = (Inr (), refused st 400 ''points_too_large'')"
  using assms
  by (auto simp add: awardGamePoints_def catch_server_error_def and_then_def json_def
      fresh_def refused_def MAX_POINTS_PER_CALL_def)

lemma game_invalid_level:
  assumes "verifyIdTokenFromReq e req (fresh st) = (Inr (Some uid), fresh st)"
    and "userId req = Some (Str uid)" and "uid \<noteq> []"
    and "isInteger (points req)" and "\<not> js_le (ToNumber e (points req)) (Fin 0)"
    and "\<not> js_gt (ToNumber e (points req)) (Fin 1000)"
    and "level_rejected e req"
  shows "awardGamePoints e req (fresh st) = (Inr (), refused st 400 ''invalid level'')"
  using assms
  by (auto simp add: awardGamePoints_def catch_server_error_def and_then_def json_def
      fresh_def refused_def MAX_POINTS_PER_CALL_def MAX_LEVEL_ALLOWED_def level_rejected_def)

lemma game_award:
  assumes "verifyIdTokenFromReq e req (fresh st) = (Inr (Some uid), fresh st)"
    and "userId req = Some (Str uid)" and "uid \<noteq> []"
    and "isInteger (points req)" and "\<not> js_le (ToNumber e (points req)) (Fin 0)"
    and "\<not> js_gt (ToNumber e (points req)) (Fin 1000)"
    and "\<not> level_rejected e req"
  shows "awardGamePoints e req (fresh st) = (Inr (), game_awarded e req uid st)"
  using assms
  by (auto simp add: awardGamePoints_def catch_server_error_def and_then_def json_def
      runTransaction_def gamePointsUpdate_def returns_def refetch_def
      fresh_def game_store_def game_text_def game_awarded_def Let_def
      MAX_POINTS_PER_CALL_def MAX_LEVEL_ALLOWED_def level_rejected_def split: option.splits)

text \<open>The points that pass the two guards on \<open>points\<close> are the integers from 1 to 1000.\<close>

lemma valid_points_iff:
  "(isInteger (points req) \<and> \<not> js_le (ToNumber e (points req)) (Fin 0)
      \<and> \<not> js_gt (ToNumber e (points req)) (Fin 1000))
   = (\<exists>p::int. points req = Some (Num (Fin (of_int p))) \<and> 1 \<le> p \<and> p \<le> 1000)"
proof (cases "points req")
  case None
  then show ?thesis by simp
next
  case (Some v)
  show ?thesis
  proof (cases v)
    case (Num n)
    show ?thesis
    proof (cases n)
      case (Fin r)
      have "(is_int r \<and> 0 < r \<and> r \<le> 1000) = (\<exists>p::int. r = of_int p \<and> 1 \<le> p \<and> p \<le> 1000)"
      proof
        assume a: "is_int r \<and> 0 < r \<and> r \<le> 1000"
        then have r: "r = of_int \<lfloor>r\<rfloor>" unfolding is_int_def by (rule_tac sym) blast
        with a have "0 < (of_int \<lfloor>r\<rfloor> :: rat)" "(of_int \<lfloor>r\<rfloor> :: rat) \<le> 1000" by simp_all
        then have "1 \<le> \<lfloor>r\<rfloor>" "\<lfloor>r\<rfloor> \<le> 1000" by linarith+
        with r show "\<exists>p::int. r = of_int p \<and> 1 \<le> p \<and> p \<le> 1000" by blast
      next
        assume "\<exists>p::int. r = of_int p \<and> 1 \<le> p \<and> p \<le> 1000"
        then obtain p :: int where "r = of_int p" "1 \<le> p" "p \<le> 1000" by blast
        then show "is_int r \<and> 0 < r \<and> r \<le> 1000" by (simp add: is_int_def)
      qed
      moreover have "(\<not> r \<le> 0) = (0 < r)" by auto
      ultimately show ?thesis using Some Num Fin by (simp add: js_le_def js_gt_def not_less)
    qed (use Some Num in simp_all)
  qed (use Some in simp_all)
qed

text \<open>Every call of a handler takes one of these courses.\<close>

lemma applyAdReward_cases:
  "(\<exists>msg. applyAdReward e req (fresh st) = (Inr (), refused st 401 msg))
   \<or> applyAdReward e req (fresh st) = (Inr (), refused st 400 ''userId mismatch'')
   \<or> (\<exists>uid. applyAdReward e req (fresh st) = (Inl HeadersSent, ad_claimed uid st))
   \<or> (\<exists>uid. applyAdReward e req (fresh st) = (Inr (), ad_awarded e uid st))"
proof -
  consider (unverified) msg where
      "verifyIdTokenFromReq e req (fresh st) = (Inr None, refused st 401 msg)"
    | (verified) uid where "verifyIdTokenFromReq e req (fresh st) = (Inr (Some uid), fresh st)"
    using verify_cases [of e req st] by blast
  then show ?thesis
  proof cases
    case unverified
    then show ?thesis using ad_unverified by blast
  next
    case verified
    show ?thesis
    proof (cases "\<not> truthy (userId req) \<or> userId req \<noteq> Some (Str uid)")
      case True
      with verified show ?thesis using ad_mismatch by blast
    next
      case False
      then have m: "userId req = Some (Str uid)" "uid \<noteq> []" by auto
      show ?thesis
      proof (cases "stored_field st uid ''lastAdShown'' = Some (Plain (Str (dayKey e)))")
        case True
        from ad_already_claimed [OF verified m True] show ?thesis by blast
      next
        case False
        from ad_award [OF verified m False] show ?thesis by blast
      qed
    qed
  qed
qed

lemma awardGamePoints_cases:
  "(\<exists>code reason. awardGamePoints e req (fresh st) = (Inr (), refused st code reason))
   \<or> (\<exists>uid p. points req = Some (Num (Fin (of_int p))) \<and> 1 \<le> p \<and> p \<le> 1000
      \<and> awardGamePoints e req (fresh st) = (Inr (), game_awarded e req uid st))"
proof -
  consider (unverified) msg where
      "verifyIdTokenFromReq e req (fresh st) = (Inr None, refused st 401 msg)"
    | (verified) uid where "verifyIdTokenFromReq e req (fresh st) = (Inr (Some uid), fresh st)"
    using verify_cases [of e req st] by blast
  then show ?thesis
  proof cases
    case unverified
    then show ?thesis using game_unverified by blast
  next
    case verified
    show ?thesis
    proof (cases "\<not> truthy (userId req) \<or> userId req \<noteq> Some (Str uid)")
      case True
      with verified show ?thesis using game_mismatch by blast
    next
      case False
      then have m: "userId req = Some (Str uid)" "uid \<noteq> []" by auto
      show ?thesis
      proof (cases "\<not> isInteger (points req) \<or> js_le (ToNumber e (points req)) (Fin 0)")
        case True
        from game_invalid_points [OF verified m True] show ?thesis by blast
      next
        case False
        then have p: "isInteger (points req)" "\<not> js_le (ToNumber e (points req)) (Fin 0)"
          by auto
        show ?thesis
        proof (cases "js_gt (ToNumber e (points req)) (Fin 1000)")
          case True
          from game_points_too_large [OF verified m p True] show ?thesis by blast
        next
          case False
          note small = this
          from p small valid_points_iff [of req e]
          obtain q :: int where q: "points req = Some (Num (Fin (of_int q)))" "1 \<le> q" "q \<le> 1000"
            by blast
          show ?thesis
          proof (cases "level_rejected e req")
            case True
            from game_invalid_level [OF verified m p small True] show ?thesis by blast
          next
            case False
            from game_award [OF verified m p small False] q show ?thesis by blast
          qed
        qed
      qed
    qed
  qed
qed

section \<open>The worlds the handlers leave\<close>

lemma refused_simps [simp]:
  "db (refused st code reason) = st"
  "replies (refused st code reason) = [(code, Failure reason)]"
  "transactions (refused st code reason) = []"
  by (simp_all add: refused_def)

lemma ad_claimed_simps [simp]:
  "db (ad_claimed uid st) = st"
  "replies (ad_claimed uid st)
     = [(200, Failure ''Already claimed today''),
        (200, Success (Some (Num (Fin 100))) (newPoints uid st)),
        (500, Failure ''server_error'')]"
  "transactions (ad_claimed uid st) = [Committed []]"
  by (simp_all add: ad_claimed_def)

lemma ad_awarded_simps [simp]:
  "db (ad_awarded e uid st) = ad_store e uid st"
  "replies (ad_awarded e uid st)
     = [(200, Success (Some (Num (Fin 100))) (newPoints uid (ad_store e uid st)))]"
  "transactions (ad_awarded e uid st) = [Committed
        [TxSet (UserDoc uid)
           [(''points'', Increment (Fin 100)), (''lastAdShown'', Literal (Str (dayKey e)))] True,
         TxSet (NewActivity uid)
           [(''text'', Literal (Str ''Watched daily ad +100 pts (server)'')),
            (''time'', ServerTimestamp)] False]]"
  by (simp_all add: ad_awarded_def)

lemma game_awarded_simps [simp]:
  "db (game_awarded e req uid st) = game_store e req uid st"
  "replies (game_awarded e req uid st)
     = [(200, Success (points req) (newPoints uid (game_store e req uid st)))]"
  "transactions (game_awarded e req uid st) = [Committed
        [if users st uid = None
         then TxSet (UserDoc uid) [(''points'', Increment (ToNumber e (points req)))] True
         else TxUpdate (UserDoc uid) [(''points'', Increment (ToNumber e (points req)))],
         TxSet (NewActivity uid)
           [(''text'', Literal (Str (game_text e req))),
            (''time'', ServerTimestamp),
            (''totalScore'', Literal (js_or (totalScore req) Null))] True]]"
  by (simp_all add: game_awarded_def)

subsection \<open>The store after an award\<close>

lemma point_total_SomeD:
  assumes "point_total st uid = Some t"
  shows "stored_field st uid ''points'' = None \<and> t = 0
       \<or> stored_field st uid ''points'' = Some (Plain (Num (Fin t)))"
  using assms
  by (auto simp add: point_total_def split: option.splits fvalue.splits jsval.splits jsnum.splits)

lemma point_total_cong: "users st' u = users st u \<Longrightarrow> point_total st' u = point_total st u"
  by (simp add: point_total_def stored_field_def)

lemma is_int_of_int [simp]: "is_int (of_int n)"
  by (simp add: is_int_def)

lemma is_int_of_nat [simp]: "is_int (of_nat n)"
  using is_int_of_int [of "int n"] by simp

lemma is_int_numeral [simp]: "is_int (numeral k)" and is_int_0 [simp]: "is_int 0"
  by (simp_all add: is_int_def)

lemma ad_store_total:
  assumes "point_total st uid = Some t" and "is_int t"
  shows "point_total (ad_store e uid st) uid = Some (t + 100)"
    and "newPoints uid (ad_store e uid st) = Plain (Num (Fin (t + 100)))"
  using point_total_SomeD [OF assms(1)] assms(2)
  by (auto simp add: point_total_def stored_field_def ad_store_def newPoints_def Let_def
      split: option.splits)

lemma ad_store_points:
  "stored_field (ad_store e uid st) uid ''points''
     = Some (field_value e (stored_field st uid ''points'') (Increment (Fin 100)))"
  by (simp add: ad_store_def stored_field_def Let_def split: option.splits)

lemma ad_store_others:
  "u \<noteq> uid \<Longrightarrow> users (ad_store e uid st) u = users st u"
  "u \<noteq> uid \<Longrightarrow> activities (ad_store e uid st) u = activities st u"
  by (simp_all add: ad_store_def Let_def)

lemma ad_store_own:
  "stored_field (ad_store e uid st) uid ''lastAdShown'' = Some (Plain (Str (dayKey e)))"
  "activities (ad_store e uid st) uid = activities st uid @
     [[''text'' \<mapsto> Plain (Str ''Watched daily ad +100 pts (server)''),
       ''time'' \<mapsto> Timestamp (commitTime e)]]"
  by (simp_all add: ad_store_def Let_def stored_field_def)

lemma game_store_total:
  assumes "point_total st uid = Some t" and "points req = Some (Num (Fin r))"
    and "is_int t" and "is_int r"
  shows "point_total (game_store e req uid st) uid = Some (t + r)"
    and "newPoints uid (game_store e req uid st) = Plain (Num (Fin (t + r)))"
  using point_total_SomeD [OF assms(1)] assms(2-4)
  by (auto simp add: point_total_def stored_field_def game_store_def newPoints_def Let_def
      split: option.splits)

lemma game_store_points:
  "points req = Some (Num n) \<Longrightarrow> stored_field (game_store e req uid st) uid ''points''
     = Some (field_value e (stored_field st uid ''points'') (Increment n))"
  by (simp add: game_store_def stored_field_def Let_def split: option.splits)

lemma game_store_others:
  "u \<noteq> uid \<Longrightarrow> users (game_store e req uid st) u = users st u"
  "u \<noteq> uid \<Longrightarrow> activities (game_store e req uid st) u = activities st u"
  by (simp_all add: game_store_def Let_def)

lemma game_store_own:
  "activities (game_store e req uid st) uid = activities st uid @
     [[''text'' \<mapsto> Plain (Str (game_text e req)),
       ''time'' \<mapsto> Timestamp (commitTime e),
       ''totalScore'' \<mapsto> Plain (js_or (totalScore req) Null)]]"
  by (simp add: game_store_def Let_def)

subsection \<open>The text of a game activity\<close>

lemma ToString_int:
  assumes "\<bar>p\<bar> \<le> 1000"
  shows "ToString e (Some (Num (Fin (of_int p)))) = int_string p"
proof -
  have "\<bar>of_int p :: rat\<bar> \<le> 1000" using assms by (metis of_int_abs of_int_le_numeral_iff)
  then have "\<bar>of_int p :: rat\<bar> < 10 ^ 21" by simp
  then show ?thesis by (simp add: is_int_def)
qed

lemma level_rejected_number:
  "level req = Some (Num (Fin r)) \<Longrightarrow> level_rejected e req = (r < 0 \<or> 500 < r)"
  by (auto simp add: level_rejected_def isNaN_def js_gt_def)

lemma int_level_accepted:
  assumes "level req = map_option (\<lambda>l. Num (Fin (of_int l))) lv"
    and "lv = None \<or> (\<exists>l. lv = Some l \<and> 0 \<le> l \<and> l \<le> 500)"
  shows "\<not> level_rejected e req"
  using assms by (auto simp add: level_rejected_def isNaN_def js_gt_def)

lemma int_level_text:
  assumes "level req = map_option (\<lambda>l. Num (Fin (of_int l))) lv"
    and "lv = None \<or> (\<exists>l. lv = Some l \<and> 0 \<le> l \<and> l \<le> 500)"
  shows "ToString e (Some (js_or (level req) (Str ''?'')))
     = (case lv of None \<Rightarrow> ''?'' | Some l \<Rightarrow> if l = 0 then ''?'' else int_string l)"
proof (cases lv)
  case None
  with assms show ?thesis by (simp add: js_or_def)
next
  case (Some l)
  with assms have b: "\<bar>l\<bar> \<le> 1000" by auto
  have "ToString e (Some (Str ''?'')) = ''?''" by simp
  with ToString_int [OF b, of e] Some assms(1) show ?thesis
    by (simp add: js_or_def del: ToString.simps)
qed

subsection \<open>The system, call by call\<close>

lemma handle_ad_cases:
  "handle (AdReward e req) st = st \<or> (\<exists>uid. handle (AdReward e req) st = ad_store e uid st)"
proof -
  have "db (snd (applyAdReward e req (fresh st))) = st
      \<or> (\<exists>uid. db (snd (applyAdReward e req (fresh st))) = ad_store e uid st)"
    using applyAdReward_cases [of e req st]
    by (elim disjE exE) (simp, simp, simp, rule disjI2, rule exI, simp)
  then show ?thesis by simp
qed

lemma handle_game_cases:
  "handle (GamePoints e req) st = st
   \<or> (\<exists>uid p. points req = Some (Num (Fin (of_int p))) \<and> 1 \<le> p \<and> p \<le> 1000
        \<and> handle (GamePoints e req) st = game_store e req uid st)"
proof -
  have "db (snd (awardGamePoints e req (fresh st))) = st
      \<or> (\<exists>uid p. points req = Some (Num (Fin (of_int p))) \<and> 1 \<le> p \<and> p \<le> 1000
        \<and> db (snd (awardGamePoints e req (fresh st))) = game_store e req uid st)"
    using awardGamePoints_cases [of e req st]
  proof (elim disjE exE conjE)
    fix uid p
    assume "points req = Some (Num (Fin (of_int p)))" "1 \<le> p" "p \<le> 1000"
      and "awardGamePoints e req (fresh st) = (Inr (), game_awarded e req uid st)"
    then have "points req = Some (Num (Fin (of_int p))) \<and> 1 \<le> p \<and> p \<le> 1000
        \<and> db (snd (awardGamePoints e req (fresh st))) = game_store e req uid st"
      by simp
    then show ?thesis by blast
  qed simp
  then show ?thesis by simp
qed

lemma handle_total_step:
  assumes "point_total st u = Some (of_nat n)"
  shows "\<exists>k. point_total (handle c st) u = Some (of_nat (n + k))
      \<and> (k = 0 \<or> (\<exists>e req. c = AdReward e req) \<and> k = 100
          \<or> (\<exists>e req. c = GamePoints e req) \<and> 1 \<le> k \<and> k \<le> 1000)"
proof (cases c)
  case (AdReward e req)
  from handle_ad_cases [of e req st]
  consider "handle c st = st" | uid where "handle c st = ad_store e uid st"
    unfolding AdReward by blast
  then show ?thesis
  proof cases
    case 1
    have "point_total (handle c st) u = Some (of_nat (n + 0))" using 1 assms by simp
    then show ?thesis by blast
  next
    case 2
    show ?thesis
    proof (cases "u = uid")
      case True
      have "point_total (handle c st) u = Some (of_nat (n + 100))"
        using 2 True ad_store_total(1) [OF assms is_int_of_nat, of e] by simp
      with AdReward show ?thesis by blast
    next
      case False
      have "point_total (handle c st) u = Some (of_nat (n + 0))"
        using 2 assms point_total_cong [OF ad_store_others(1) [OF False, of e st]] by simp
      then show ?thesis by blast
    qed
  qed
next
  case (GamePoints e req)
  from handle_game_cases [of e req st]
  consider "handle c st = st"
    | uid p where "points req = Some (Num (Fin (of_int p)))" "1 \<le> p" "p \<le> 1000"
        "handle c st = game_store e req uid st"
    unfolding GamePoints by blast
  then show ?thesis
  proof cases
    case 1
    have "point_total (handle c st) u = Some (of_nat (n + 0))" using 1 assms by simp
    then show ?thesis by blast
  next
    case 2
    show ?thesis
    proof (cases "u = uid")
      case True
      have "(of_nat n :: rat) + of_int p = of_nat (n + nat p)" using 2(2) by simp
      then have "point_total (handle c st) u = Some (of_nat (n + nat p))"
        using 2 True game_store_total(1) [OF assms 2(1) is_int_of_nat is_int_of_int, of e]
        by simp
      moreover have "1 \<le> nat p" "nat p \<le> 1000" using 2(2,3) by simp_all
      ultimately show ?thesis using GamePoints by blast
    next
      case False
      have "point_total (handle c st) u = Some (of_nat (n + 0))"
        using 2 assms point_total_cong [OF game_store_others(1) [OF False, of e req st]] by simp
      then show ?thesis by blast
    qed
  qed
qed

lemma run_snoc: "run (cs @ [c]) st = handle c (run cs st)"
  by (induction cs arbitrary: st) simp_all

lemma run_total_nat: "\<exists>n. point_total (run cs empty_store) u = Some (of_nat n)"
proof (induction cs rule: rev_induct)
  case Nil
  have "point_total empty_store u = Some (of_nat 0)"
    by (simp add: point_total_def stored_field_def empty_store_def)
  then show ?case by (simp del: of_nat_0)
next
  case (snoc c cs)
  then obtain n where "point_total (run cs empty_store) u = Some (of_nat n)" by blast
  from handle_total_step [OF this, of c] show ?case unfolding run_snoc by blast
qed

lemma ad_quiet_or_award:
  "(\<exists>r w. applyAdReward e req (fresh st) = (r, w)
      \<and> (\<exists>code reason rest. replies w = (code, Failure reason) # rest)
      \<and> db w = st \<and> (transactions w = [] \<or> transactions w = [Committed []]))
   \<or> (\<exists>uid. applyAdReward e req (fresh st) = (Inr (), ad_awarded e uid st))"
  using applyAdReward_cases [of e req st]
  by (elim disjE exE) (simp, simp, simp, blast)

lemma game_quiet_or_award:
  "(\<exists>r w. awardGamePoints e req (fresh st) = (r, w)
      \<and> (\<exists>code reason. replies w = [(code, Failure reason)])
      \<and> db w = st \<and> transactions w = [])
   \<or> (\<exists>uid p. points req = Some (Num (Fin (of_int p)))
        \<and> awardGamePoints e req (fresh st) = (Inr (), game_awarded e req uid st))"
  using awardGamePoints_cases [of e req st]
  by (elim disjE exE conjE) (simp, blast)

lemma ad_success_store:
  assumes "replies (snd (applyAdReward e req (fresh st))) = [(200, Success a np)]"
  shows "\<exists>uid. db (snd (applyAdReward e req (fresh st))) = ad_store e uid st"
  using applyAdReward_cases [of e req st] assms
  by (elim disjE exE) (simp, simp, simp, rule exI, simp)

lemma game_success_store:
  assumes "replies (snd (awardGamePoints e req (fresh st))) = [(200, Success a np)]"
  shows "\<exists>uid. db (snd (awardGamePoints e req (fresh st))) = game_store e req uid st"
  using awardGamePoints_cases [of e req st] assms
  by (elim disjE exE conjE) (simp, rule exI, simp)

subsection \<open>The concrete requests\<close>

lemma test_env_verifies:
  "authorization req = Some ''Bearer tok-alice'' \<Longrightarrow>
   verifyIdTokenFromReq test_env req (fresh st) = (Inr (Some ''alice''), fresh st)"
  by (simp add: verifyIdTokenFromReq_def test_env_def split_def returns_def)

lemma dayKey_test_env: "dayKey test_env = ''2024-1-15''"
  by (simp add: dayKey_def test_env_def dec_string.simps digit_def)

lemma bob_env_verifies:
  "authorization req = Some ''Bearer tok-bob'' \<Longrightarrow>
   verifyIdTokenFromReq bob_env req (fresh st) = (Inr (Some ''bob''), fresh st)"
  by (simp add: verifyIdTokenFromReq_def bob_env_def split_def returns_def)

lemma dayKey_bob_env: "dayKey bob_env = ''2025-12-31''"
  by (simp add: dayKey_def bob_env_def dec_string.simps digit_def)

lemma int_string_50: "int_string 50 = ''50''" and int_string_3: "int_string 3 = ''3''"
  by (simp_all add: int_string_def dec_string.simps digit_def)

lemma five_halves: "\<not> is_int (5 / 2)"
proof -
  have "\<lfloor>5 / 2 :: rat\<rfloor> = 2" by (rule floor_unique) simp_all
  then show ?thesis by (simp add: is_int_def)
qed

section \<open>The claims\<close>

text \<open>
  C1. A second \<open>applyAdReward\<close> call within the same UTC day (the stored day-key of the
  user equals today's) should leave the point total unchanged, write no audit record and
  answer "Already claimed today" (200, \<open>ok: false\<close>) as its only response. What the handler
  does on such a call: the store is unchanged and the first response is the expected one,
  but it is not the only one. The \<open>return\<close> inside the update function only leaves the
  update function, so the handler goes on to at least one more response, and it ends as
  a rejected promise, since the response after the first throws and so does the one of its
  \<open>catch\<close> block.
\<close>

theorem applyAdReward_claimed_not_only_response:
  assumes "verifyIdTokenFromReq e req (fresh st) = (Inr (Some uid), fresh st)"
    and "userId req = Some (Str uid)" and "uid \<noteq> []"
    and "stored_field st uid ''lastAdShown'' = Some (Plain (Str (dayKey e)))"
  shows "db (snd (applyAdReward e req (fresh st))) = st
    \<and> (\<exists>second rest. replies (snd (applyAdReward e req (fresh st)))
          = (200, Failure ''Already claimed today'') # second # rest)
    \<and> fst (applyAdReward e req (fresh st)) = Inl HeadersSent"
  using ad_already_claimed [OF assms] by simp

text \<open>The same at a concrete input: alice, who has claimed on 2024-1-15, calls again.\<close>

theorem applyAdReward_claimed_not_only_response_witness:
  "verifyIdTokenFromReq test_env alice_req (fresh claimed_store)
      = (Inr (Some ''alice''), fresh claimed_store)
    \<and> userId alice_req = Some (Str ''alice'') \<and> ''alice'' \<noteq> []
    \<and> stored_field claimed_store ''alice'' ''lastAdShown''
      = Some (Plain (Str (dayKey test_env)))
    \<and> applyAdReward test_env alice_req (fresh claimed_store)
      = (Inl HeadersSent,
         \<lparr>db = claimed_store,
          replies = [(200, Failure ''Already claimed today''),
                     (200, Success (Some (Num (Fin 100))) (Plain (Num (Fin 100)))),
                     (500, Failure ''server_error'')],
          transactions = [Committed []]\<rparr>)"
proof -
  have v: "verifyIdTokenFromReq test_env alice_req (fresh claimed_store)
      = (Inr (Some ''alice''), fresh claimed_store)"
    by (simp add: test_env_verifies alice_req_def)
  have u: "userId alice_req = Some (Str ''alice'')" by (simp add: alice_req_def)
  have n: "''alice'' \<noteq> []" by simp
  have d: "stored_field claimed_store ''alice'' ''lastAdShown''
      = Some (Plain (Str (dayKey test_env)))"
    by (simp add: stored_field_def claimed_store_def dayKey_test_env)
  have p: "newPoints ''alice'' claimed_store = Plain (Num (Fin 100))"
    by (simp add: newPoints_def claimed_store_def)
  show ?thesis
    using v u d p applyAdReward_claimed_not_only_response [OF v u n d]
      ad_already_claimed [OF v u n d]
    by (simp add: ad_claimed_def)
qed

text \<open>
  C2. An \<open>awardGamePoints\<close> call with a verified subject equal to \<open>userId\<close>, integer
  \<open>points\<close> in [1,1000] and \<open>level\<close> absent or an integer in [0,500] should add exactly
  \<open>points\<close> to the stored total (from 0 if there is no record) and write exactly one audit
  record containing the level. It does not for level 0: \<open>level || "?"\<close> takes 0 for a
  missing level, and the audit record reads "level ?".
\<close>

theorem awardGamePoints_level_zero_logged_as_unknown:
  "activities (db (snd (awardGamePoints test_env
       (alice_req\<lparr>points := Some (Num (Fin 50)), level := Some (Num (Fin 0))\<rparr>)
       (fresh empty_store)))) ''alice''
   = [[''text'' \<mapsto> Plain (Str ''Game: +50 pts (level ?)''),
       ''time'' \<mapsto> Timestamp 7,
       ''totalScore'' \<mapsto> Plain Null]]"
proof -
  let ?req = "alice_req\<lparr>points := Some (Num (Fin 50)), level := Some (Num (Fin 0))\<rparr>"
  have v: "verifyIdTokenFromReq test_env ?req (fresh empty_store)
      = (Inr (Some ''alice''), fresh empty_store)"
    by (simp add: test_env_verifies alice_req_def)
  have u: "userId ?req = Some (Str ''alice'')" by (simp add: alice_req_def)
  have n: "''alice'' \<noteq> []" by simp
  have p: "isInteger (points ?req)" "\<not> js_le (ToNumber test_env (points ?req)) (Fin 0)"
    "\<not> js_gt (ToNumber test_env (points ?req)) (Fin 1000)"
    by (simp_all add: is_int_def js_le_def js_gt_def)
  have l: "\<not> level_rejected test_env ?req" by (simp add: level_rejected_def)
  have "\<bar>50::rat\<bar> < 10 ^ 21" by simp
  then have g: "game_text test_env ?req = ''Game: +50 pts (level ?)''"
    by (simp add: game_text_def js_or_def is_int_def int_string_50)
  have c: "commitTime test_env = 7" "totalScore ?req = None"
    by (simp_all add: test_env_def alice_req_def)
  show ?thesis
    using game_award [OF v u n p l] game_store_own [of test_env ?req "''alice''" empty_store]
    by (simp add: g c js_or_def empty_store_def)
qed

text \<open>
  C2 as the code has it: with the stored total a non-negative integer \<open>n\<close> (0 when there
  is no record or no \<open>points\<close> field) and \<open>n + points\<close> at most
  \<open>Number.MAX_SAFE_INTEGER\<close>, the call answers 200 with \<open>added: points\<close> and the new
  total, the total becomes \<open>n + points\<close>, and exactly one audit record is appended, whose
  text names the level when it is in [1,500] and reads "level ?" when the level is absent
  or 0. No other record changes.
\<close>

theorem awardGamePoints_award:
  assumes "verifyIdTokenFromReq e req (fresh st) = (Inr (Some uid), fresh st)"
    and "userId req = Some (Str uid)" and "uid \<noteq> []"
    and "points req = Some (Num (Fin (of_int p)))" and "1 \<le> p" and "p \<le> 1000"
    and "level req = map_option (\<lambda>l. Num (Fin (of_int l))) lv"
    and "lv = None \<or> (\<exists>l. lv = Some l \<and> 0 \<le> l \<and> l \<le> 500)"
    and "point_total st uid = Some (of_int n)" and "0 \<le> n"
    and "n + p \<le> MAX_SAFE_INTEGER"
  shows "\<exists>st' txs. awardGamePoints e req (fresh st)
      = (Inr (), \<lparr>db = st',
                  replies = [(200, Success (points req) (Plain (Num (Fin (of_int (n + p))))))],
                  transactions = [Committed txs]\<rparr>)
    \<and> point_total st' uid = Some (of_int (n + p))
    \<and> activities st' uid = activities st uid @
         [[''text'' \<mapsto> Plain (Str (''Game: +'' @ int_string p @ '' pts (level ''
              @ (case lv of None \<Rightarrow> ''?'' | Some l \<Rightarrow> if l = 0 then ''?'' else int_string l)
              @ '')'')),
           ''time'' \<mapsto> Timestamp (commitTime e),
           ''totalScore'' \<mapsto> Plain (js_or (totalScore req) Null)]]
    \<and> (\<forall>u. u \<noteq> uid \<longrightarrow> users st' u = users st u \<and> activities st' u = activities st u)"
proof -
  have "\<exists>q::int. points req = Some (Num (Fin (of_int q))) \<and> 1 \<le> q \<and> q \<le> 1000"
    using assms(4-6) by blast
  then have v: "isInteger (points req)" "\<not> js_le (ToNumber e (points req)) (Fin 0)"
    "\<not> js_gt (ToNumber e (points req)) (Fin 1000)"
    using valid_points_iff [of req e] by blast+
  have "\<bar>p\<bar> \<le> 1000" using assms(5,6) by simp
  then have "game_text e req = ''Game: +'' @ int_string p @ '' pts (level ''
       @ (case lv of None \<Rightarrow> ''?'' | Some l \<Rightarrow> if l = 0 then ''?'' else int_string l) @ '')''"
    using int_level_text [OF assms(7,8), of e] ToString_int [of p e] assms(4)
    by (simp add: game_text_def del: ToString.simps)
  then show ?thesis
    using game_award [OF assms(1-3) v int_level_accepted [OF assms(7,8)]]
      game_store_total [OF assms(9,4) is_int_of_int is_int_of_int, of e]
      game_store_own [of e req uid st] game_store_others [of _ uid e req st]
    by (simp add: game_awarded_def)
qed

text \<open>
  The scenario of the specification: a user with no record calls with \<open>points\<close> 50 and
  \<open>level\<close> 3, and ends with total 50 and one audit record, "Game: +50 pts (level 3)".
\<close>

theorem awardGamePoints_award_witness:
  "verifyIdTokenFromReq test_env
       (alice_req\<lparr>points := Some (Num (Fin (of_int 50))),
                  level := map_option (\<lambda>l. Num (Fin (of_int l))) (Some 3)\<rparr>) (fresh empty_store)
      = (Inr (Some ''alice''), fresh empty_store)
    \<and> (1::int) \<le> 50 \<and> (50::int) \<le> 1000 \<and> (0::int) \<le> 3 \<and> (3::int) \<le> 500
    \<and> point_total empty_store ''alice'' = Some (of_int 0) \<and> (0::int) \<le> 0
    \<and> (0::int) + 50 \<le> MAX_SAFE_INTEGER
    \<and> (\<exists>st' txs. awardGamePoints test_env
          (alice_req\<lparr>points := Some (Num (Fin (of_int 50))),
                     level := map_option (\<lambda>l. Num (Fin (of_int l))) (Some 3)\<rparr>) (fresh empty_store)
      = (Inr (), \<lparr>db = st',
                  replies = [(200, Success (Some (Num (Fin 50))) (Plain (Num (Fin 50))))],
                  transactions = [Committed txs]\<rparr>)
    \<and> point_total st' ''alice'' = Some 50
    \<and> activities st' ''alice'' =
         [[''text'' \<mapsto> Plain (Str ''Game: +50 pts (level 3)''),
           ''time'' \<mapsto> Timestamp 7,
           ''totalScore'' \<mapsto> Plain Null]]
    \<and> (\<forall>u. u \<noteq> ''alice'' \<longrightarrow> users st' u = users empty_store u
           \<and> activities st' u = activities empty_store u))"
proof -
  let ?req = "alice_req\<lparr>points := Some (Num (Fin (of_int 50))),
                  level := map_option (\<lambda>l. Num (Fin (of_int l))) (Some 3)\<rparr>"
  have v: "verifyIdTokenFromReq test_env ?req (fresh empty_store)
      = (Inr (Some ''alice''), fresh empty_store)"
    by (simp add: test_env_verifies alice_req_def)
  have u: "userId ?req = Some (Str ''alice'')" by (simp add: alice_req_def)
  have n: "''alice'' \<noteq> []" by simp
  have p: "points ?req = Some (Num (Fin (of_int 50)))" by simp
  have l: "level ?req = map_option (\<lambda>l. Num (Fin (of_int l))) (Some 3)" by simp
  have r: "Some 3 = None \<or> (\<exists>l. Some 3 = Some l \<and> (0::int) \<le> l \<and> l \<le> 500)" by simp
  have t: "point_total empty_store ''alice'' = Some (of_int 0)"
    by (simp add: point_total_def stored_field_def empty_store_def)
  have c: "commitTime test_env = 7" "totalScore ?req = None" "activities empty_store ''alice'' = []"
    by (simp_all add: test_env_def alice_req_def empty_store_def)
  have b: "(1::int) \<le> 50" "(50::int) \<le> 1000" by simp_all
  have z: "(0::int) \<le> 0" by simp
  have m: "(0::int) + 50 \<le> MAX_SAFE_INTEGER" by (simp add: MAX_SAFE_INTEGER_def)
  from awardGamePoints_award [OF v u n p b l r t z m] v t m
  show ?thesis
    by (simp add: c int_string_50 int_string_3 js_or_def alice_req_def)
qed

text \<open>
  C3. An \<open>awardGamePoints\<close> call whose \<open>points\<close> is not an integer, is at most 0 or exceeds
  1000 should be answered 400 with a reason code, with no mutation and no transaction. It
  is not when the caller is not authenticated: the token is verified first, and the answer
  is 401.
\<close>

theorem awardGamePoints_unauthenticated_invalid_points:
  "awardGamePoints test_env (alice_req\<lparr>authorization := None, points := Some (Num (Fin 0))\<rparr>)
     (fresh empty_store)
   = (Inr (), \<lparr>db = empty_store,
               replies = [(401, Failure ''Missing or invalid Authorization header'')],
               transactions = []\<rparr>)"
  by (simp add: awardGamePoints_def catch_server_error_def and_then_def verifyIdTokenFromReq_def
      json_def returns_def fresh_def alice_req_def)

text \<open>
  C3 as the code has it: for a call whose token verifies and whose \<open>points\<close> is anything
  but an integer from 1 to 1000 (missing, not a number, fractional, at most 0, above
  1000), the only response is 400 with the reason "userId mismatch" when \<open>userId\<close> is not
  the subject, else "invalid points" or "points_too_large"; the store is unchanged and no
  transaction is run.
\<close>

theorem awardGamePoints_invalid_points:
  assumes "verifyIdTokenFromReq e req (fresh st) = (Inr (Some uid), fresh st)"
    and "\<not> (\<exists>p::int. points req = Some (Num (Fin (of_int p))) \<and> 1 \<le> p \<and> p \<le> 1000)"
  shows "awardGamePoints e req (fresh st)
    = (Inr (),
       \<lparr>db = st,
        replies = [(400, Failure
          (if \<not> truthy (userId req) \<or> userId req \<noteq> Some (Str uid) then ''userId mismatch''
           else if \<not> isInteger (points req) \<or> js_le (ToNumber e (points req)) (Fin 0)
             then ''invalid points''
           else ''points_too_large''))],
        transactions = []\<rparr>)"
proof (cases "\<not> truthy (userId req) \<or> userId req \<noteq> Some (Str uid)")
  case True
  with game_mismatch [OF assms(1) True] show ?thesis by (simp add: refused_def)
next
  case False
  then have m: "userId req = Some (Str uid)" "uid \<noteq> []" by auto
  show ?thesis
  proof (cases "\<not> isInteger (points req) \<or> js_le (ToNumber e (points req)) (Fin 0)")
    case True
    with game_invalid_points [OF assms(1) m True] m show ?thesis by (simp add: refused_def)
  next
    case False
    then have p: "isInteger (points req)" "\<not> js_le (ToNumber e (points req)) (Fin 0)"
      by auto
    with assms(2) valid_points_iff [of req e]
    have "js_gt (ToNumber e (points req)) (Fin 1000)" by blast
    from game_points_too_large [OF assms(1) m p this] m p show ?thesis
      by (simp add: refused_def)
  qed
qed

theorem awardGamePoints_invalid_points_witness:
  "verifyIdTokenFromReq test_env (alice_req\<lparr>points := Some (Num (Fin 1001))\<rparr>)
      (fresh claimed_store) = (Inr (Some ''alice''), fresh claimed_store)
   \<and> awardGamePoints test_env (alice_req\<lparr>points := Some (Num (Fin 1001))\<rparr>)
      (fresh claimed_store)
     = (Inr (), \<lparr>db = claimed_store, replies = [(400, Failure ''points_too_large'')],
                 transactions = []\<rparr>)"
proof -
  let ?req = "alice_req\<lparr>points := Some (Num (Fin 1001))\<rparr>"
  have v: "verifyIdTokenFromReq test_env ?req (fresh claimed_store)
      = (Inr (Some ''alice''), fresh claimed_store)"
    by (simp add: test_env_verifies alice_req_def)
  have "\<not> p \<le> 1000" if "(1001::rat) = of_int p" for p :: int
  proof -
    from that have "(of_int 1001 :: rat) = of_int p" by simp
    then have "p = 1001" by (simp only: of_int_eq_iff)
    then show ?thesis by simp
  qed
  then have i: "\<not> (\<exists>p::int. points ?req = Some (Num (Fin (of_int p))) \<and> 1 \<le> p \<and> p \<le> 1000)"
    by auto
  have "is_int 1001" by (simp add: is_int_def)
  then show ?thesis
    using v awardGamePoints_invalid_points [OF v i]
    by (simp add: alice_req_def js_le_def)
qed

text \<open>
  C4. In an \<open>awardGamePoints\<close> call with a \<open>level\<close>, the level should have to be a
  non-negative integer at most 500, and any other level be answered 400 "invalid level"
  with no mutation. The guard tests the level with \<open>isNaN\<close> and two comparisons, never
  for integrality: level 2.5 is accepted, the points are awarded and the audit record
  reads "level 2.5".
\<close>

theorem awardGamePoints_fractional_level_accepted:
  "fst (awardGamePoints test_env
      (alice_req\<lparr>points := Some (Num (Fin 50)), level := Some (Num (Fin (5 / 2)))\<rparr>)
      (fresh empty_store)) = Inr ()
   \<and> replies (snd (awardGamePoints test_env
      (alice_req\<lparr>points := Some (Num (Fin 50)), level := Some (Num (Fin (5 / 2)))\<rparr>)
      (fresh empty_store)))
     = [(200, Success (Some (Num (Fin 50))) (Plain (Num (Fin 50))))]
   \<and> point_total (db (snd (awardGamePoints test_env
      (alice_req\<lparr>points := Some (Num (Fin 50)), level := Some (Num (Fin (5 / 2)))\<rparr>)
      (fresh empty_store)))) ''alice'' = Some 50
   \<and> activities (db (snd (awardGamePoints test_env
      (alice_req\<lparr>points := Some (Num (Fin 50)), level := Some (Num (Fin (5 / 2)))\<rparr>)
      (fresh empty_store)))) ''alice''
     = [[''text'' \<mapsto> Plain (Str ''Game: +50 pts (level 2.5)''),
         ''time'' \<mapsto> Timestamp 7,
         ''totalScore'' \<mapsto> Plain Null]]"
proof -
  let ?req = "alice_req\<lparr>points := Some (Num (Fin 50)), level := Some (Num (Fin (5 / 2)))\<rparr>"
  have v: "verifyIdTokenFromReq test_env ?req (fresh empty_store)
      = (Inr (Some ''alice''), fresh empty_store)"
    by (simp add: test_env_verifies alice_req_def)
  have u: "userId ?req = Some (Str ''alice'')" by (simp add: alice_req_def)
  have n: "''alice'' \<noteq> []" by simp
  have q: "points ?req = Some (Num (Fin 50))" by simp
  have p: "isInteger (points ?req)" "\<not> js_le (ToNumber test_env (points ?req)) (Fin 0)"
    "\<not> js_gt (ToNumber test_env (points ?req)) (Fin 1000)"
    by (simp_all add: is_int_def js_le_def js_gt_def)
  have l: "\<not> level_rejected test_env ?req"
    by (simp add: level_rejected_def isNaN_def js_gt_def)
  have "\<bar>50::rat\<bar> < 10 ^ 21" by simp
  then have g: "game_text test_env ?req = ''Game: +50 pts (level 2.5)''"
    by (simp add: game_text_def js_or_def int_string_50 test_env_def five_halves)
  have t: "point_total empty_store ''alice'' = Some 0"
    by (simp add: point_total_def stored_field_def empty_store_def)
  have c: "commitTime test_env = 7" "totalScore ?req = None"
    by (simp_all add: test_env_def alice_req_def)
  show ?thesis
    using game_award [OF v u n p l]
      game_store_total [OF t q is_int_0 is_int_numeral, of test_env]
      game_store_own [of test_env ?req "''alice''" empty_store]
    by (simp add: g c js_or_def empty_store_def)
qed

text \<open>
  C4 as the code has it: for a call whose token verifies, whose \<open>userId\<close> is the subject
  and whose \<open>points\<close> is an integer from 1 to 1000, the only response is 400 "invalid
  level", with the store unchanged and no transaction run, exactly when the level is
  truthy and its numeric value is \<open>NaN\<close>, below 0 or above 500; any other call is
  accepted and answered 200. For a level that is a finite number \<open>r\<close> this means: refused
  exactly when \<open>r < 0\<close> or \<open>r > 500\<close>, whether \<open>r\<close> is an integer or not.
\<close>

theorem awardGamePoints_level_guard:
  assumes "verifyIdTokenFromReq e req (fresh st) = (Inr (Some uid), fresh st)"
    and "userId req = Some (Str uid)" and "uid \<noteq> []"
    and "points req = Some (Num (Fin (of_int p)))" and "1 \<le> p" and "p \<le> 1000"
  shows "(if truthy (level req) \<and> (ToNumber e (level req) = NaN
              \<or> js_lt (ToNumber e (level req)) (Fin 0)
              \<or> js_lt (Fin 500) (ToNumber e (level req)))
          then awardGamePoints e req (fresh st)
            = (Inr (), \<lparr>db = st, replies = [(400, Failure ''invalid level'')],
                        transactions = []\<rparr>)
          else \<exists>st' np txs. awardGamePoints e req (fresh st)
            = (Inr (), \<lparr>db = st', replies = [(200, Success (points req) np)],
                        transactions = [Committed txs]\<rparr>))
    \<and> (\<forall>r. level req = Some (Num (Fin r)) \<longrightarrow>
          (truthy (level req) \<and> (ToNumber e (level req) = NaN
              \<or> js_lt (ToNumber e (level req)) (Fin 0)
              \<or> js_lt (Fin 500) (ToNumber e (level req))))
          = (r < 0 \<or> 500 < r))"
proof -
  have "\<exists>q::int. points req = Some (Num (Fin (of_int q))) \<and> 1 \<le> q \<and> q \<le> 1000"
    using assms(4-6) by blast
  then have v: "isInteger (points req)" "\<not> js_le (ToNumber e (points req)) (Fin 0)"
    "\<not> js_gt (ToNumber e (points req)) (Fin 1000)"
    using valid_points_iff [of req e] by blast+
  have g: "(truthy (level req) \<and> (ToNumber e (level req) = NaN
              \<or> js_lt (ToNumber e (level req)) (Fin 0)
              \<or> js_lt (Fin 500) (ToNumber e (level req)))) = level_rejected e req"
    by (simp add: level_rejected_def isNaN_def js_gt_def)
  have "if level_rejected e req
          then awardGamePoints e req (fresh st)
            = (Inr (), \<lparr>db = st, replies = [(400, Failure ''invalid level'')],
                        transactions = []\<rparr>)
          else \<exists>st' np txs. awardGamePoints e req (fresh st)
            = (Inr (), \<lparr>db = st', replies = [(200, Success (points req) np)],
                        transactions = [Committed txs]\<rparr>)"
  proof (cases "level_rejected e req")
    case True
    from game_invalid_level [OF assms(1-3) v True] True show ?thesis
      by (simp add: refused_def)
  next
    case False
    from game_award [OF assms(1-3) v False] False show ?thesis
      by (simp add: game_awarded_def)
  qed
  moreover have "\<forall>r. level req = Some (Num (Fin r))
      \<longrightarrow> level_rejected e req = (r < 0 \<or> 500 < r)"
    using level_rejected_number [of req _ e] by blast
  ultimately show ?thesis unfolding g by blast
qed

theorem awardGamePoints_level_guard_witness:
  "verifyIdTokenFromReq test_env
      (alice_req\<lparr>points := Some (Num (Fin (of_int 50))), level := Some (Num (Fin 501))\<rparr>)
      (fresh claimed_store) = (Inr (Some ''alice''), fresh claimed_store)
   \<and> (1::int) \<le> 50 \<and> (50::int) \<le> 1000
   \<and> awardGamePoints test_env
      (alice_req\<lparr>points := Some (Num (Fin (of_int 50))), level := Some (Num (Fin 501))\<rparr>)
      (fresh claimed_store)
     = (Inr (), \<lparr>db = claimed_store, replies = [(400, Failure ''invalid level'')],
                 transactions = []\<rparr>)"
proof -
  let ?req = "alice_req\<lparr>points := Some (Num (Fin (of_int 50))), level := Some (Num (Fin 501))\<rparr>"
  have v: "verifyIdTokenFromReq test_env ?req (fresh claimed_store)
      = (Inr (Some ''alice''), fresh claimed_store)"
    by (simp add: test_env_verifies alice_req_def)
  have u: "userId ?req = Some (Str ''alice'')" by (simp add: alice_req_def)
  have n: "''alice'' \<noteq> []" by simp
  have p: "points ?req = Some (Num (Fin (of_int 50)))" by simp
  have b: "(1::int) \<le> 50" "(50::int) \<le> 1000" by simp_all
  show ?thesis
    using v awardGamePoints_level_guard [OF v u n p b]
    by simp
qed

text \<open>
  C5. A call of either handler whose verified subject is not the \<open>userId\<close> of the body
  (a missing \<open>userId\<close> included) is answered 400 "userId mismatch", and neither the
  balance record nor the audit log changes.
\<close>

theorem userId_mismatch_rejected:
  assumes "verifyIdTokenFromReq e req (fresh st) = (Inr (Some uid), fresh st)"
    and "userId req \<noteq> Some (Str uid)"
  shows "applyAdReward e req (fresh st)
      = (Inr (), \<lparr>db = st, replies = [(400, Failure ''userId mismatch'')], transactions = []\<rparr>)
    \<and> awardGamePoints e req (fresh st)
      = (Inr (), \<lparr>db = st, replies = [(400, Failure ''userId mismatch'')], transactions = []\<rparr>)"
  using assms ad_mismatch [of e req st uid] game_mismatch [of e req st uid]
  by (simp add: refused_def)

theorem userId_mismatch_rejected_witness:
  "verifyIdTokenFromReq test_env (alice_req\<lparr>userId := None\<rparr>) (fresh claimed_store)
      = (Inr (Some ''alice''), fresh claimed_store)
    \<and> userId (alice_req\<lparr>userId := None\<rparr>) \<noteq> Some (Str ''alice'')
    \<and> applyAdReward test_env (alice_req\<lparr>userId := None\<rparr>) (fresh claimed_store)
      = (Inr (), \<lparr>db = claimed_store, replies = [(400, Failure ''userId mismatch'')],
                  transactions = []\<rparr>)
    \<and> awardGamePoints test_env (alice_req\<lparr>userId := None\<rparr>) (fresh claimed_store)
      = (Inr (), \<lparr>db = claimed_store, replies = [(400, Failure ''userId mismatch'')],
                  transactions = []\<rparr>)"
proof -
  have v: "verifyIdTokenFromReq test_env (alice_req\<lparr>userId := None\<rparr>) (fresh claimed_store)
      = (Inr (Some ''alice''), fresh claimed_store)"
    by (simp add: test_env_verifies alice_req_def)
  have u: "userId (alice_req\<lparr>userId := None\<rparr>) \<noteq> Some (Str ''alice'')" by simp
  show ?thesis
    using v u userId_mismatch_rejected [OF v u] by simp
qed

text \<open>
  C6. Every call of either handler takes one of two courses. Either its first response is
  a failure (\<open>ok: false\<close>) and it writes nothing: the store is unchanged, and the
  transaction, if one was run, committed no write. Or its only response is 200 with
  \<open>ok: true\<close>, and it has committed, in one transaction, exactly two writes: the increment
  of the user's \<open>points\<close> and one new activity record carrying the server's timestamp. So
  a successful award is an increment with its audit record, and no increment is committed
  without its audit record and no audit record without its increment.
\<close>

theorem award_paired_with_audit:
  "(\<exists>r w. applyAdReward e req (fresh st) = (r, w) \<and>
      ((\<exists>code reason rest. replies w = (code, Failure reason) # rest)
         \<and> db w = st \<and> (transactions w = [] \<or> transactions w = [Committed []])
       \<or> (\<exists>uid np. replies w = [(200, Success (Some (Num (Fin 100))) np)]
            \<and> transactions w = [Committed
                 [TxSet (UserDoc uid)
                    [(''points'', Increment (Fin 100)),
                     (''lastAdShown'', Literal (Str (dayKey e)))] True,
                  TxSet (NewActivity uid)
                    [(''text'', Literal (Str ''Watched daily ad +100 pts (server)'')),
                     (''time'', ServerTimestamp)] False]]
            \<and> stored_field (db w) uid ''points''
                 = Some (field_value e (stored_field st uid ''points'') (Increment (Fin 100)))
            \<and> activities (db w) uid = activities st uid @
                 [[''text'' \<mapsto> Plain (Str ''Watched daily ad +100 pts (server)''),
                   ''time'' \<mapsto> Timestamp (commitTime e)]])))
   \<and> (\<exists>r w. awardGamePoints e req (fresh st) = (r, w) \<and>
      ((\<exists>code reason. replies w = [(code, Failure reason)])
         \<and> db w = st \<and> transactions w = []
       \<or> (\<exists>uid np n txt. replies w = [(200, Success (points req) np)]
            \<and> points req = Some (Num n)
            \<and> transactions w = [Committed
                 [if users st uid = None
                  then TxSet (UserDoc uid) [(''points'', Increment n)] True
                  else TxUpdate (UserDoc uid) [(''points'', Increment n)],
                  TxSet (NewActivity uid)
                    [(''text'', Literal (Str txt)),
                     (''time'', ServerTimestamp),
                     (''totalScore'', Literal (js_or (totalScore req) Null))] True]]
            \<and> stored_field (db w) uid ''points''
                 = Some (field_value e (stored_field st uid ''points'') (Increment n))
            \<and> activities (db w) uid = activities st uid @
                 [[''text'' \<mapsto> Plain (Str txt),
                   ''time'' \<mapsto> Timestamp (commitTime e),
                   ''totalScore'' \<mapsto> Plain (js_or (totalScore req) Null)]])))"
    (is "?ad \<and> ?game")
proof
  from ad_quiet_or_award [of e req st]
  consider (quiet) r w where "applyAdReward e req (fresh st) = (r, w)"
      "\<exists>code reason rest. replies w = (code, Failure reason) # rest" "db w = st"
      "transactions w = [] \<or> transactions w = [Committed []]"
    | (award) uid where "applyAdReward e req (fresh st) = (Inr (), ad_awarded e uid st)"
    by blast
  then show ?ad
  proof cases
    case quiet
    then show ?thesis by blast
  next
    case award
    show ?thesis
      unfolding award
      by (intro exI [of _ "Inr ()"] exI [of _ "ad_awarded e uid st"] conjI refl disjI2
          exI [of _ uid] exI [of _ "newPoints uid (ad_store e uid st)"])
        (simp_all add: ad_store_points ad_store_own)
  qed
next
  from game_quiet_or_award [of e req st]
  consider (quiet) r w where "awardGamePoints e req (fresh st) = (r, w)"
      "\<exists>code reason. replies w = [(code, Failure reason)]" "db w = st"
      "transactions w = []"
    | (award) uid p where "points req = Some (Num (Fin (of_int p)))"
      "awardGamePoints e req (fresh st) = (Inr (), game_awarded e req uid st)"
    by blast
  then show ?game
  proof cases
    case quiet
    then show ?thesis by blast
  next
    case award
    show ?thesis
      unfolding award(2)
      by (intro exI [of _ "Inr ()"] exI [of _ "game_awarded e req uid st"] conjI refl disjI2
          exI [of _ uid] exI [of _ "newPoints uid (game_store e req uid st)"]
          exI [of _ "Fin (of_int p)"] exI [of _ "game_text e req"])
        (simp_all add: award(1) game_store_points game_store_own)
  qed
qed

text \<open>
  Three instances: alice, who has claimed today, calls \<open>applyAdReward\<close> again and nothing
  is written; alice, who claimed the day before, is awarded the 100 points; alice, with
  no record, is awarded 50 game points. In the last two the commit holds the two writes
  and the store holds the total and the record.
\<close>

theorem award_paired_with_audit_witness:
  "(\<exists>r w. applyAdReward test_env alice_req (fresh claimed_store) = (r, w)
      \<and> (\<exists>rest. replies w = (200, Failure ''Already claimed today'') # rest)
      \<and> db w = claimed_store \<and> transactions w = [Committed []])
   \<and> (\<exists>r w. applyAdReward test_env alice_req (fresh returning_store) = (r, w)
      \<and> replies w = [(200, Success (Some (Num (Fin 100))) (Plain (Num (Fin 200))))]
      \<and> transactions w = [Committed
           [TxSet (UserDoc ''alice'')
              [(''points'', Increment (Fin 100)),
               (''lastAdShown'', Literal (Str ''2024-1-15''))] True,
            TxSet (NewActivity ''alice'')
              [(''text'', Literal (Str ''Watched daily ad +100 pts (server)'')),
               (''time'', ServerTimestamp)] False]]
      \<and> stored_field (db w) ''alice'' ''points'' = Some (Plain (Num (Fin 200)))
      \<and> activities (db w) ''alice''
         = [[''text'' \<mapsto> Plain (Str ''Watched daily ad +100 pts (server)''),
             ''time'' \<mapsto> Timestamp 7]])
   \<and> (\<exists>r w. awardGamePoints test_env (alice_req\<lparr>points := Some (Num (Fin 50))\<rparr>)
          (fresh empty_store) = (r, w)
      \<and> replies w = [(200, Success (Some (Num (Fin 50))) (Plain (Num (Fin 50))))]
      \<and> transactions w = [Committed
           [TxSet (UserDoc ''alice'') [(''points'', Increment (Fin 50))] True,
            TxSet (NewActivity ''alice'')
              [(''text'', Literal (Str ''Game: +50 pts (level ?)'')),
               (''time'', ServerTimestamp),
               (''totalScore'', Literal Null)] True]]
      \<and> stored_field (db w) ''alice'' ''points'' = Some (Plain (Num (Fin 50)))
      \<and> activities (db w) ''alice''
         = [[''text'' \<mapsto> Plain (Str ''Game: +50 pts (level ?)''),
             ''time'' \<mapsto> Timestamp 7,
             ''totalScore'' \<mapsto> Plain Null]])"
proof -
  let ?req = "alice_req\<lparr>points := Some (Num (Fin 50))\<rparr>"
  have v: "verifyIdTokenFromReq test_env ?req (fresh empty_store)
      = (Inr (Some ''alice''), fresh empty_store)"
    by (simp add: test_env_verifies alice_req_def)
  have u: "userId ?req = Some (Str ''alice'')" by (simp add: alice_req_def)
  have n: "''alice'' \<noteq> []" by simp
  have q: "points ?req = Some (Num (Fin 50))" by simp
  have p: "isInteger (points ?req)" "\<not> js_le (ToNumber test_env (points ?req)) (Fin 0)"
    "\<not> js_gt (ToNumber test_env (points ?req)) (Fin 1000)"
    by (simp_all add: js_le_def js_gt_def)
  have l: "\<not> level_rejected test_env ?req" by (simp add: level_rejected_def alice_req_def)
  have "\<bar>50::rat\<bar> < 10 ^ 21" by simp
  then have g: "game_text test_env ?req = ''Game: +50 pts (level ?)''"
    by (simp add: game_text_def js_or_def int_string_50 alice_req_def)
  have t: "point_total empty_store ''alice'' = Some 0"
    by (simp add: point_total_def stored_field_def empty_store_def)
  have c: "commitTime test_env = 7" "totalScore ?req = None"
    by (simp_all add: test_env_def alice_req_def)
  have s: "stored_field empty_store ''alice'' ''points'' = None" "users empty_store ''alice'' = None"
    "activities empty_store ''alice'' = []"
    by (simp_all add: stored_field_def empty_store_def)
  have game: "\<exists>r w. awardGamePoints test_env ?req (fresh empty_store) = (r, w)
      \<and> replies w = [(200, Success (Some (Num (Fin 50))) (Plain (Num (Fin 50))))]
      \<and> transactions w = [Committed
           [TxSet (UserDoc ''alice'') [(''points'', Increment (Fin 50))] True,
            TxSet (NewActivity ''alice'')
              [(''text'', Literal (Str ''Game: +50 pts (level ?)'')),
               (''time'', ServerTimestamp),
               (''totalScore'', Literal Null)] True]]
      \<and> stored_field (db w) ''alice'' ''points'' = Some (Plain (Num (Fin 50)))
      \<and> activities (db w) ''alice''
         = [[''text'' \<mapsto> Plain (Str ''Game: +50 pts (level ?)''),
             ''time'' \<mapsto> Timestamp 7,
             ''totalScore'' \<mapsto> Plain Null]]"
    using game_award [OF v u n p l]
      game_store_total [OF t q is_int_0 is_int_numeral, of test_env]
      game_store_points [OF q, of test_env "''alice''" empty_store]
      game_store_own [of test_env ?req "''alice''" empty_store]
    by (simp add: g c s js_or_def)
  have v': "verifyIdTokenFromReq test_env alice_req (fresh st)
      = (Inr (Some ''alice''), fresh st)" for st
    by (simp add: test_env_verifies alice_req_def)
  have u': "userId alice_req = Some (Str ''alice'')" by (simp add: alice_req_def)
  have d: "stored_field claimed_store ''alice'' ''lastAdShown''
      = Some (Plain (Str (dayKey test_env)))"
    by (simp add: stored_field_def claimed_store_def dayKey_test_env)
  have quiet: "\<exists>r w. applyAdReward test_env alice_req (fresh claimed_store) = (r, w)
      \<and> (\<exists>rest. replies w = (200, Failure ''Already claimed today'') # rest)
      \<and> db w = claimed_store \<and> transactions w = [Committed []]"
    using ad_already_claimed [OF v' u' n d] by simp
  have d': "stored_field returning_store ''alice'' ''lastAdShown''
      \<noteq> Some (Plain (Str (dayKey test_env)))"
    by (simp add: stored_field_def returning_store_def dayKey_test_env)
  have t': "point_total returning_store ''alice'' = Some 100"
    by (simp add: point_total_def stored_field_def returning_store_def)
  have s': "stored_field returning_store ''alice'' ''points'' = Some (Plain (Num (Fin 100)))"
    "activities returning_store ''alice'' = []"
    by (simp_all add: stored_field_def returning_store_def)
  have ad: "\<exists>r w. applyAdReward test_env alice_req (fresh returning_store) = (r, w)
      \<and> replies w = [(200, Success (Some (Num (Fin 100))) (Plain (Num (Fin 200))))]
      \<and> transactions w = [Committed
           [TxSet (UserDoc ''alice'')
              [(''points'', Increment (Fin 100)),
               (''lastAdShown'', Literal (Str ''2024-1-15''))] True,
            TxSet (NewActivity ''alice'')
              [(''text'', Literal (Str ''Watched daily ad +100 pts (server)'')),
               (''time'', ServerTimestamp)] False]]
      \<and> stored_field (db w) ''alice'' ''points'' = Some (Plain (Num (Fin 200)))
      \<and> activities (db w) ''alice''
         = [[''text'' \<mapsto> Plain (Str ''Watched daily ad +100 pts (server)''),
             ''time'' \<mapsto> Timestamp 7]]"
    using ad_award [OF v' u' n d'] ad_store_total [OF t' is_int_numeral, of test_env]
      ad_store_points [of test_env "''alice''" returning_store]
      ad_store_own [of test_env "''alice''" returning_store]
    by (simp add: c s' dayKey_test_env)
  show ?thesis
    using quiet ad game award_paired_with_audit [of test_env alice_req returning_store]
    by blast
qed

text \<open>
  C7. An \<open>applyAdReward\<close> call with a verified subject equal to \<open>userId\<close>, by a user whose
  stored day-key is not today's (or who has no record), adds exactly 100 to the point
  total, sets the stored day-key to today's, appends exactly one audit record, changes no
  other record, and answers 200 with \<open>ok: true\<close>, \<open>added: 100\<close> and the new total. Today's
  day-key is the UTC year, the UTC month counted from 1 and the UTC day of the month of
  the clock, in decimal and joined by "-". The total before the call is a non-negative
  integer \<open>n\<close> (0 when there is no record or no \<open>points\<close> field), with \<open>n + 100\<close> at most
  \<open>Number.MAX_SAFE_INTEGER\<close>.
\<close>

theorem applyAdReward_first_of_day:
  assumes "verifyIdTokenFromReq e req (fresh st) = (Inr (Some uid), fresh st)"
    and "userId req = Some (Str uid)" and "uid \<noteq> []"
    and "stored_field st uid ''lastAdShown''
      \<noteq> Some (Plain (Str (dec_string (utcFullYear e) @ ''-'' @ dec_string (utcMonth e + 1)
            @ ''-'' @ dec_string (utcDate e))))"
    and "point_total st uid = Some (of_int n)" and "0 \<le> n"
    and "n + 100 \<le> MAX_SAFE_INTEGER"
  shows "\<exists>st' txs. applyAdReward e req (fresh st)
      = (Inr (), \<lparr>db = st',
                  replies = [(200, Success (Some (Num (Fin 100)))
                                (Plain (Num (Fin (of_int (n + 100))))))],
                  transactions = [Committed txs]\<rparr>)
    \<and> point_total st' uid = Some (of_int (n + 100))
    \<and> stored_field st' uid ''lastAdShown''
      = Some (Plain (Str (dec_string (utcFullYear e) @ ''-'' @ dec_string (utcMonth e + 1)
            @ ''-'' @ dec_string (utcDate e))))
    \<and> activities st' uid = activities st uid @
         [[''text'' \<mapsto> Plain (Str ''Watched daily ad +100 pts (server)''),
           ''time'' \<mapsto> Timestamp (commitTime e)]]
    \<and> (\<forall>u. u \<noteq> uid \<longrightarrow> users st' u = users st u \<and> activities st' u = activities st u)"
proof -
  have d: "stored_field st uid ''lastAdShown'' \<noteq> Some (Plain (Str (dayKey e)))"
    using assms(4) by (simp add: dayKey_def)
  show ?thesis
    using ad_award [OF assms(1-3) d] ad_store_total [OF assms(5) is_int_of_int, of e]
      ad_store_own [of e uid st] ad_store_others [of _ uid e st]
    by (simp add: ad_awarded_def dayKey_def)
qed

text \<open>
  Two instances, on two days: alice, who claimed on 2024-1-14 and has 100 points, calls on
  2024-1-15; bob, who has no record, calls on 2025-12-31.
\<close>

theorem applyAdReward_first_of_day_witness:
  "verifyIdTokenFromReq test_env alice_req (fresh returning_store)
      = (Inr (Some ''alice''), fresh returning_store)
    \<and> userId alice_req = Some (Str ''alice'') \<and> ''alice'' \<noteq> []
    \<and> stored_field returning_store ''alice'' ''lastAdShown''
         \<noteq> Some (Plain (Str ''2024-1-15''))
    \<and> point_total returning_store ''alice'' = Some (of_int 100) \<and> (0::int) \<le> 100
    \<and> (100::int) + 100 \<le> MAX_SAFE_INTEGER
    \<and> (\<exists>st' txs. applyAdReward test_env alice_req (fresh returning_store)
      = (Inr (), \<lparr>db = st',
                  replies = [(200, Success (Some (Num (Fin 100))) (Plain (Num (Fin 200))))],
                  transactions = [Committed txs]\<rparr>)
      \<and> point_total st' ''alice'' = Some 200
      \<and> stored_field st' ''alice'' ''lastAdShown'' = Some (Plain (Str ''2024-1-15''))
      \<and> activities st' ''alice'' =
         [[''text'' \<mapsto> Plain (Str ''Watched daily ad +100 pts (server)''),
           ''time'' \<mapsto> Timestamp 7]]
      \<and> (\<forall>u. u \<noteq> ''alice'' \<longrightarrow> users st' u = users returning_store u
           \<and> activities st' u = activities returning_store u))
    \<and> verifyIdTokenFromReq bob_env bob_req (fresh empty_store)
      = (Inr (Some ''bob''), fresh empty_store)
    \<and> userId bob_req = Some (Str ''bob'') \<and> ''bob'' \<noteq> []
    \<and> stored_field empty_store ''bob'' ''lastAdShown'' \<noteq> Some (Plain (Str ''2025-12-31''))
    \<and> point_total empty_store ''bob'' = Some (of_int 0)
    \<and> (\<exists>st' txs. applyAdReward bob_env bob_req (fresh empty_store)
      = (Inr (), \<lparr>db = st',
                  replies = [(200, Success (Some (Num (Fin 100))) (Plain (Num (Fin 100))))],
                  transactions = [Committed txs]\<rparr>)
      \<and> point_total st' ''bob'' = Some 100
      \<and> stored_field st' ''bob'' ''lastAdShown'' = Some (Plain (Str ''2025-12-31''))
      \<and> activities st' ''bob'' =
         [[''text'' \<mapsto> Plain (Str ''Watched daily ad +100 pts (server)''),
           ''time'' \<mapsto> Timestamp 99]]
      \<and> (\<forall>u. u \<noteq> ''bob'' \<longrightarrow> users st' u = users empty_store u
           \<and> activities st' u = activities empty_store u))"
proof -
  have k: "dec_string (utcFullYear test_env) @ ''-'' @ dec_string (utcMonth test_env + 1)
      @ ''-'' @ dec_string (utcDate test_env) = ''2024-1-15''"
    using dayKey_test_env by (simp add: dayKey_def)
  have v: "verifyIdTokenFromReq test_env alice_req (fresh returning_store)
      = (Inr (Some ''alice''), fresh returning_store)"
    by (simp add: test_env_verifies alice_req_def)
  have u: "userId alice_req = Some (Str ''alice'')" by (simp add: alice_req_def)
  have n: "''alice'' \<noteq> []" by simp
  have d: "stored_field returning_store ''alice'' ''lastAdShown''
      \<noteq> Some (Plain (Str (dec_string (utcFullYear test_env) @ ''-''
            @ dec_string (utcMonth test_env + 1) @ ''-'' @ dec_string (utcDate test_env))))"
    unfolding k by (simp add: stored_field_def returning_store_def)
  have t: "point_total returning_store ''alice'' = Some (of_int 100)"
    by (simp add: point_total_def stored_field_def returning_store_def)
  have z: "(0::int) \<le> 100" by simp
  have m: "(100::int) + 100 \<le> MAX_SAFE_INTEGER" by (simp add: MAX_SAFE_INTEGER_def)
  have c: "commitTime test_env = 7" "activities returning_store ''alice'' = []"
    by (simp_all add: test_env_def returning_store_def)
  have alice: "\<exists>st' txs. applyAdReward test_env alice_req (fresh returning_store)
      = (Inr (), \<lparr>db = st',
                  replies = [(200, Success (Some (Num (Fin 100))) (Plain (Num (Fin 200))))],
                  transactions = [Committed txs]\<rparr>)
      \<and> point_total st' ''alice'' = Some 200
      \<and> stored_field st' ''alice'' ''lastAdShown'' = Some (Plain (Str ''2024-1-15''))
      \<and> activities st' ''alice'' =
         [[''text'' \<mapsto> Plain (Str ''Watched daily ad +100 pts (server)''),
           ''time'' \<mapsto> Timestamp 7]]
      \<and> (\<forall>u. u \<noteq> ''alice'' \<longrightarrow> users st' u = users returning_store u
           \<and> activities st' u = activities returning_store u)"
    using applyAdReward_first_of_day [OF v u n d t z m, unfolded k] by (simp add: c)
  have k': "dec_string (utcFullYear bob_env) @ ''-'' @ dec_string (utcMonth bob_env + 1)
      @ ''-'' @ dec_string (utcDate bob_env) = ''2025-12-31''"
    using dayKey_bob_env by (simp add: dayKey_def)
  have v': "verifyIdTokenFromReq bob_env bob_req (fresh empty_store)
      = (Inr (Some ''bob''), fresh empty_store)"
    by (simp add: bob_env_verifies bob_req_def)
  have u': "userId bob_req = Some (Str ''bob'')" by (simp add: bob_req_def)
  have n': "''bob'' \<noteq> []" by simp
  have d': "stored_field empty_store ''bob'' ''lastAdShown''
      \<noteq> Some (Plain (Str (dec_string (utcFullYear bob_env) @ ''-''
            @ dec_string (utcMonth bob_env + 1) @ ''-'' @ dec_string (utcDate bob_env))))"
    by (simp add: stored_field_def empty_store_def)
  have t': "point_total empty_store ''bob'' = Some (of_int 0)"
    by (simp add: point_total_def stored_field_def empty_store_def)
  have z': "(0::int) \<le> 0" by simp
  have m': "(0::int) + 100 \<le> MAX_SAFE_INTEGER" by (simp add: MAX_SAFE_INTEGER_def)
  have c': "commitTime bob_env = 99" "activities empty_store ''bob'' = []"
    by (simp_all add: bob_env_def empty_store_def)
  have bob: "\<exists>st' txs. applyAdReward bob_env bob_req (fresh empty_store)
      = (Inr (), \<lparr>db = st',
                  replies = [(200, Success (Some (Num (Fin 100))) (Plain (Num (Fin 100))))],
                  transactions = [Committed txs]\<rparr>)
      \<and> point_total st' ''bob'' = Some 100
      \<and> stored_field st' ''bob'' ''lastAdShown'' = Some (Plain (Str ''2025-12-31''))
      \<and> activities st' ''bob'' =
         [[''text'' \<mapsto> Plain (Str ''Watched daily ad +100 pts (server)''),
           ''time'' \<mapsto> Timestamp 99]]
      \<and> (\<forall>u. u \<noteq> ''bob'' \<longrightarrow> users st' u = users empty_store u
           \<and> activities st' u = activities empty_store u)"
    using applyAdReward_first_of_day [OF v' u' n' d' t' z' m', unfolded k'] by (simp add: c')
  have d0: "stored_field returning_store ''alice'' ''lastAdShown''
      \<noteq> Some (Plain (Str ''2024-1-15''))"
    using d unfolding k .
  have d0': "stored_field empty_store ''bob'' ''lastAdShown'' \<noteq> Some (Plain (Str ''2025-12-31''))"
    using d' unfolding k' .
  show ?thesis
    using v u n d0 t z m alice v' u' n' d0' t' bob by blast
qed

text \<open>
  C8. The stored point total is a non-negative integer that never decreases: in the store
  reached from the empty one by any sequence of calls of the two handlers, the total of
  every user is a natural number \<open>n\<close>, and one more call leaves it at \<open>n\<close> or raises it,
  by 100 if the call is an \<open>applyAdReward\<close> and by an amount from 1 to 1000 if it is an
  \<open>awardGamePoints\<close>.
\<close>

theorem point_total_never_decreases:
  "\<exists>n k. point_total (run cs empty_store) u = Some (of_nat n)
     \<and> point_total (run (cs @ [c]) empty_store) u = Some (of_nat (n + k))
     \<and> (k = 0 \<or> (\<exists>e req. c = AdReward e req) \<and> k = 100
         \<or> (\<exists>e req. c = GamePoints e req) \<and> 1 \<le> k \<and> k \<le> 1000)"
proof -
  obtain n where n: "point_total (run cs empty_store) u = Some (of_nat n)"
    using run_total_nat by blast
  from handle_total_step [OF n, of c] n show ?thesis unfolding run_snoc by blast
qed

text \<open>An instance: alice claims the ad reward and is then awarded 50 points.\<close>

theorem point_total_never_decreases_witness:
  "point_total (run [AdReward test_env alice_req] empty_store) ''alice'' = Some 100
   \<and> point_total (run ([AdReward test_env alice_req]
        @ [GamePoints test_env (alice_req\<lparr>points := Some (Num (Fin 50))\<rparr>)]) empty_store) ''alice''
     = Some 150"
proof -
  let ?req = "alice_req\<lparr>points := Some (Num (Fin 50))\<rparr>"
  let ?st = "ad_store test_env ''alice'' empty_store"
  have n: "''alice'' \<noteq> []" by simp
  have u: "userId alice_req = Some (Str ''alice'')" "userId ?req = Some (Str ''alice'')"
    by (simp_all add: alice_req_def)
  have v: "verifyIdTokenFromReq test_env alice_req (fresh empty_store)
      = (Inr (Some ''alice''), fresh empty_store)"
    by (simp add: test_env_verifies alice_req_def)
  have d: "stored_field empty_store ''alice'' ''lastAdShown''
      \<noteq> Some (Plain (Str (dayKey test_env)))"
    by (simp add: stored_field_def empty_store_def)
  have t: "point_total empty_store ''alice'' = Some 0"
    by (simp add: point_total_def stored_field_def empty_store_def)
  have first: "run [AdReward test_env alice_req] empty_store = ?st"
    using ad_award [OF v u(1) n d] by simp
  have t1: "point_total ?st ''alice'' = Some 100"
    using ad_store_total(1) [OF t, of test_env] by simp
  have v': "verifyIdTokenFromReq test_env ?req (fresh ?st) = (Inr (Some ''alice''), fresh ?st)"
    by (simp add: test_env_verifies alice_req_def)
  have q: "points ?req = Some (Num (Fin 50))" by simp
  have p: "isInteger (points ?req)" "\<not> js_le (ToNumber test_env (points ?req)) (Fin 0)"
    "\<not> js_gt (ToNumber test_env (points ?req)) (Fin 1000)"
    by (simp_all add: is_int_def js_le_def js_gt_def)
  have l: "\<not> level_rejected test_env ?req" by (simp add: level_rejected_def alice_req_def)
  have second: "run ([AdReward test_env alice_req] @ [GamePoints test_env ?req]) empty_store
      = game_store test_env ?req ''alice'' ?st"
    using game_award [OF v' u(2) n p l] first by (simp add: run_snoc)
  have t2: "point_total (game_store test_env ?req ''alice'' ?st) ''alice'' = Some 150"
    using game_store_total(1) [OF t1 q, of test_env] by simp
  show ?thesis
    using first second t1 t2
      point_total_never_decreases [of "[AdReward test_env alice_req]" "''alice''"
        "GamePoints test_env ?req"]
    by simp
qed

text \<open>
  C9. A successful award of either handler (the call is answered 200, \<open>ok: true\<close>) changes
  the balance record of one user only, creating it if there was none, and leaves every
  field of that record other than \<open>points\<close> (and, for \<open>applyAdReward\<close>, \<open>lastAdShown\<close>) as
  it was: the write merges into the record.
\<close>

theorem award_merges_into_record:
  "(replies (snd (applyAdReward e req (fresh st))) = [(200, Success a np)] \<longrightarrow>
      (\<exists>uid d. users (db (snd (applyAdReward e req (fresh st)))) = (users st)(uid \<mapsto> d)
         \<and> (\<forall>f. f \<noteq> ''points'' \<and> f \<noteq> ''lastAdShown'' \<longrightarrow> d f = stored_field st uid f)))
   \<and> (replies (snd (awardGamePoints e req (fresh st))) = [(200, Success a np)] \<longrightarrow>
      (\<exists>uid d. users (db (snd (awardGamePoints e req (fresh st)))) = (users st)(uid \<mapsto> d)
         \<and> (\<forall>f. f \<noteq> ''points'' \<longrightarrow> d f = stored_field st uid f)))"
proof (intro conjI impI)
  assume "replies (snd (applyAdReward e req (fresh st))) = [(200, Success a np)]"
  from ad_success_store [OF this]
  obtain uid where s: "db (snd (applyAdReward e req (fresh st))) = ad_store e uid st" by blast
  define d where "d = (case users st uid of None \<Rightarrow> Map.empty | Some d \<Rightarrow> d)
      (''points'' \<mapsto> field_value e (stored_field st uid ''points'')
         (Increment (Fin 100)),
       ''lastAdShown'' \<mapsto> Plain (Str (dayKey e)))"
  have "users (ad_store e uid st) = (users st)(uid \<mapsto> d)"
    by (simp add: ad_store_def Let_def d_def stored_field_def split: option.splits)
  moreover have "\<forall>f. f \<noteq> ''points'' \<and> f \<noteq> ''lastAdShown'' \<longrightarrow> d f = stored_field st uid f"
    by (simp add: d_def stored_field_def split: option.splits)
  ultimately show "\<exists>uid d. users (db (snd (applyAdReward e req (fresh st))))
           = (users st)(uid \<mapsto> d)
         \<and> (\<forall>f. f \<noteq> ''points'' \<and> f \<noteq> ''lastAdShown'' \<longrightarrow> d f = stored_field st uid f)"
    unfolding s by blast
next
  assume "replies (snd (awardGamePoints e req (fresh st))) = [(200, Success a np)]"
  from game_success_store [OF this]
  obtain uid where s: "db (snd (awardGamePoints e req (fresh st))) = game_store e req uid st"
    by blast
  define d where "d = (case users st uid of None \<Rightarrow> Map.empty | Some d \<Rightarrow> d)
      (''points'' \<mapsto> field_value e (stored_field st uid ''points'')
         (Increment (ToNumber e (points req))))"
  have "users (game_store e req uid st) = (users st)(uid \<mapsto> d)"
    by (simp add: game_store_def Let_def d_def stored_field_def split: option.splits)
  moreover have "\<forall>f. f \<noteq> ''points'' \<longrightarrow> d f = stored_field st uid f"
    by (simp add: d_def stored_field_def split: option.splits)
  ultimately show "\<exists>uid d. users (db (snd (awardGamePoints e req (fresh st))))
           = (users st)(uid \<mapsto> d)
         \<and> (\<forall>f. f \<noteq> ''points'' \<longrightarrow> d f = stored_field st uid f)"
    unfolding s by blast
qed

text \<open>
  An instance: alice, whose record holds her name and a day-key of the day before, gets
  both awards of 100 points; her name is still there after each.
\<close>

theorem award_merges_into_record_witness:
  "replies (snd (applyAdReward test_env (alice_req\<lparr>points := Some (Num (Fin 100))\<rparr>)
       (fresh returning_store)))
     = [(200, Success (Some (Num (Fin 100))) (Plain (Num (Fin 200))))]
   \<and> replies (snd (awardGamePoints test_env (alice_req\<lparr>points := Some (Num (Fin 100))\<rparr>)
       (fresh returning_store)))
     = [(200, Success (Some (Num (Fin 100))) (Plain (Num (Fin 200))))]
   \<and> (\<exists>uid d. users (db (snd (applyAdReward test_env
          (alice_req\<lparr>points := Some (Num (Fin 100))\<rparr>) (fresh returning_store))))
        = (users returning_store)(uid \<mapsto> d)
      \<and> (\<forall>f. f \<noteq> ''points'' \<and> f \<noteq> ''lastAdShown''
           \<longrightarrow> d f = stored_field returning_store uid f))
   \<and> (\<exists>uid d. users (db (snd (awardGamePoints test_env
          (alice_req\<lparr>points := Some (Num (Fin 100))\<rparr>) (fresh returning_store))))
        = (users returning_store)(uid \<mapsto> d)
      \<and> (\<forall>f. f \<noteq> ''points'' \<longrightarrow> d f = stored_field returning_store uid f))
   \<and> stored_field (db (snd (applyAdReward test_env
          (alice_req\<lparr>points := Some (Num (Fin 100))\<rparr>) (fresh returning_store))))
        ''alice'' ''name'' = Some (Plain (Str ''Alice''))
   \<and> stored_field (db (snd (awardGamePoints test_env
          (alice_req\<lparr>points := Some (Num (Fin 100))\<rparr>) (fresh returning_store))))
        ''alice'' ''name'' = Some (Plain (Str ''Alice''))"
proof -
  let ?req = "alice_req\<lparr>points := Some (Num (Fin 100))\<rparr>"
  have v: "verifyIdTokenFromReq test_env ?req (fresh returning_store)
      = (Inr (Some ''alice''), fresh returning_store)"
    by (simp add: test_env_verifies alice_req_def)
  have u: "userId ?req = Some (Str ''alice'')" by (simp add: alice_req_def)
  have n: "''alice'' \<noteq> []" by simp
  have d: "stored_field returning_store ''alice'' ''lastAdShown''
      \<noteq> Some (Plain (Str (dayKey test_env)))"
    by (simp add: stored_field_def returning_store_def dayKey_test_env)
  have t: "point_total returning_store ''alice'' = Some 100"
    by (simp add: point_total_def stored_field_def returning_store_def)
  have q: "points ?req = Some (Num (Fin 100))" by simp
  have p: "isInteger (points ?req)" "\<not> js_le (ToNumber test_env (points ?req)) (Fin 0)"
    "\<not> js_gt (ToNumber test_env (points ?req)) (Fin 1000)"
    by (simp_all add: is_int_def js_le_def js_gt_def)
  have l: "\<not> level_rejected test_env ?req" by (simp add: level_rejected_def alice_req_def)
  have ad: "applyAdReward test_env ?req (fresh returning_store)
      = (Inr (), ad_awarded test_env ''alice'' returning_store)"
    by (rule ad_award [OF v u n d])
  have game: "awardGamePoints test_env ?req (fresh returning_store)
      = (Inr (), game_awarded test_env ?req ''alice'' returning_store)"
    by (rule game_award [OF v u n p l])
  have r1: "replies (snd (applyAdReward test_env ?req (fresh returning_store)))
      = [(200, Success (Some (Num (Fin 100))) (Plain (Num (Fin 200))))]"
    using ad ad_store_total(2) [OF t, of test_env] by simp
  have r2: "replies (snd (awardGamePoints test_env ?req (fresh returning_store)))
      = [(200, Success (Some (Num (Fin 100))) (Plain (Num (Fin 200))))]"
    using game game_store_total(2) [OF t q, of test_env] by simp
  have n1: "stored_field (db (snd (applyAdReward test_env ?req (fresh returning_store))))
      ''alice'' ''name'' = Some (Plain (Str ''Alice''))"
    using ad by (simp add: ad_store_def stored_field_def returning_store_def Let_def)
  have n2: "stored_field (db (snd (awardGamePoints test_env ?req (fresh returning_store))))
      ''alice'' ''name'' = Some (Plain (Str ''Alice''))"
    using game by (simp add: game_store_def stored_field_def returning_store_def Let_def)
  from award_merges_into_record [of test_env ?req returning_store "Some (Num (Fin 100))"
      "Plain (Num (Fin 200))"] r1 r2 n1 n2
  show ?thesis by blast
qed

text \<open>
  C10. On the "already claimed" path of \<open>applyAdReward\<close> the response 200 \<open>ok: false\<close> is
  sent from inside the update function of the transaction, which queues no write; the
  handler then falls through to the code after the transaction, reads the record again and
  attempts a second response, 200 with \<open>ok: true\<close>, \<open>added: 100\<close> and the current point
  total (and a third one, 500, when that attempt throws).
\<close>

theorem applyAdReward_claimed_second_response:
  assumes "verifyIdTokenFromReq e req (fresh st) = (Inr (Some uid), fresh st)"
    and "userId req = Some (Str uid)" and "uid \<noteq> []"
    and "stored_field st uid ''lastAdShown'' = Some (Plain (Str (dayKey e)))"
  shows "adRewardUpdate e uid (fresh st)
      = (Inr [], \<lparr>db = st, replies = [(200, Failure ''Already claimed today'')],
                  transactions = []\<rparr>)
    \<and> applyAdReward e req (fresh st)
      = (Inl HeadersSent,
         \<lparr>db = st,
          replies = [(200, Failure ''Already claimed today''),
                     (200, Success (Some (Num (Fin 100))) (newPoints uid st)),
                     (500, Failure ''server_error'')],
          transactions = [Committed []]\<rparr>)"
proof
  show "adRewardUpdate e uid (fresh st)
      = (Inr [], \<lparr>db = st, replies = [(200, Failure ''Already claimed today'')],
                  transactions = []\<rparr>)"
    using assms(4)
    by (simp add: adRewardUpdate_def stored_field_def and_then_def json_def returns_def
        fresh_def split: option.splits)
  show "applyAdReward e req (fresh st)
      = (Inl HeadersSent,
         \<lparr>db = st,
          replies = [(200, Failure ''Already claimed today''),
                     (200, Success (Some (Num (Fin 100))) (newPoints uid st)),
                     (500, Failure ''server_error'')],
          transactions = [Committed []]\<rparr>)"
    using ad_already_claimed [OF assms] by (simp add: ad_claimed_def)
qed

theorem applyAdReward_claimed_second_response_witness:
  "verifyIdTokenFromReq bob_env bob_req (fresh bob_store) = (Inr (Some ''bob''), fresh bob_store)
    \<and> userId bob_req = Some (Str ''bob'') \<and> ''bob'' \<noteq> []
    \<and> stored_field bob_store ''bob'' ''lastAdShown'' = Some (Plain (Str (dayKey bob_env)))
    \<and> adRewardUpdate bob_env ''bob'' (fresh bob_store)
      = (Inr [], \<lparr>db = bob_store, replies = [(200, Failure ''Already claimed today'')],
                  transactions = []\<rparr>)
    \<and> applyAdReward bob_env bob_req (fresh bob_store)
      = (Inl HeadersSent,
         \<lparr>db = bob_store,
          replies = [(200, Failure ''Already claimed today''),
                     (200, Success (Some (Num (Fin 100))) (Plain (Num (Fin 350)))),
                     (500, Failure ''server_error'')],
          transactions = [Committed []]\<rparr>)"
proof -
  have v: "verifyIdTokenFromReq bob_env bob_req (fresh bob_store)
      = (Inr (Some ''bob''), fresh bob_store)"
    by (simp add: bob_env_verifies bob_req_def)
  have u: "userId bob_req = Some (Str ''bob'')" by (simp add: bob_req_def)
  have n: "''bob'' \<noteq> []" by simp
  have d: "stored_field bob_store ''bob'' ''lastAdShown'' = Some (Plain (Str (dayKey bob_env)))"
    by (simp add: stored_field_def bob_store_def dayKey_bob_env)
  have p: "newPoints ''bob'' bob_store = Plain (Num (Fin 350))"
    by (simp add: newPoints_def bob_store_def)
  show ?thesis
    using v u d p applyAdReward_claimed_second_response [OF v u n d]
    by simp
qed

end
